theory Spec2Isabelle
  imports Main "HOL-Library.Char_ord" "HOL-Library.List_Lexorder" "HOL-Library.Sublist"
begin

section \<open>JavaScript values and string helpers\<close>

text \<open>
  A field of a JavaScript object is absent (\<open>undefined\<close>), \<open>null\<close>, or holds a value.
  String fields are \<open>string js\<close>, the boolean field \<open>edited\<close> is \<open>bool js\<close>.  Equality
  of two \<open>js\<close> values is the strict equality \<open>===\<close> of the source on these values.
  A string is the list of the bytes of its UTF-8 encoding; on well-formed strings
  equality, concatenation and the substring and suffix tests on the bytes agree with
  those of JavaScript on UTF-16 code units.
\<close>

datatype 'a js = Undefined | Null | Val 'a

text \<open>Truthiness of a string-valued field: \<open>undefined\<close>, \<open>null\<close> and \<open>""\<close> are falsy.\<close>

fun truthy :: "string js \<Rightarrow> bool" where
  "truthy (Val s) = (s \<noteq> [])"
| "truthy _ = False"

text \<open>Truthiness of a boolean-valued field.\<close>

fun truthy_b :: "bool js \<Rightarrow> bool" where
  "truthy_b (Val b) = b"
| "truthy_b _ = False"

text \<open>The operator \<open>a || b\<close> on string-valued and on boolean-valued fields.\<close>

definition or_js :: "string js \<Rightarrow> string js \<Rightarrow> string js" where
  "or_js a b = (if truthy a then a else b)"

definition or_b :: "bool js \<Rightarrow> bool js \<Rightarrow> bool js" where
  "or_b a b = (if truthy_b a then a else b)"

text \<open>What a template literal \<open>`${v}`\<close> prints for a field.\<close>

fun to_str :: "string js \<Rightarrow> string" where
  "to_str Undefined = ''undefined''"
| "to_str Null = ''null''"
| "to_str (Val s) = s"

text \<open>
  \<open>String.prototype.trim\<close> removes the leading and trailing code points of
  \<open>WhiteSpace\<close> and \<open>LineTerminator\<close>: U+0009 to U+000D, U+0020, U+00A0, U+1680,
  U+2000 to U+200A, U+2028, U+2029, U+202F, U+205F, U+3000 and U+FEFF.  \<open>whitespace\<close>
  lists their UTF-8 encodings.
\<close>

definition whitespace :: "string list" where
  "whitespace =
     [[CHR 0x09], [CHR 0x0A], [CHR 0x0B], [CHR 0x0C], [CHR 0x0D], [CHR 0x20],
      [CHR 0xC2, CHR 0xA0],
      [CHR 0xE1, CHR 0x9A, CHR 0x80],
      [CHR 0xE2, CHR 0x80, CHR 0x80], [CHR 0xE2, CHR 0x80, CHR 0x81],
      [CHR 0xE2, CHR 0x80, CHR 0x82], [CHR 0xE2, CHR 0x80, CHR 0x83],
      [CHR 0xE2, CHR 0x80, CHR 0x84], [CHR 0xE2, CHR 0x80, CHR 0x85],
      [CHR 0xE2, CHR 0x80, CHR 0x86], [CHR 0xE2, CHR 0x80, CHR 0x87],
      [CHR 0xE2, CHR 0x80, CHR 0x88], [CHR 0xE2, CHR 0x80, CHR 0x89],
      [CHR 0xE2, CHR 0x80, CHR 0x8A],
      [CHR 0xE2, CHR 0x80, CHR 0xA8], [CHR 0xE2, CHR 0x80, CHR 0xA9],
      [CHR 0xE2, CHR 0x80, CHR 0xAF],
      [CHR 0xE2, CHR 0x81, CHR 0x9F],
      [CHR 0xE3, CHR 0x80, CHR 0x80],
      [CHR 0xEF, CHR 0xBB, CHR 0xBF]]"

text \<open>The first of the tokens that the string starts with, if any.\<close>

definition leading :: "string list \<Rightarrow> string \<Rightarrow> string option" where
  "leading toks s = find (\<lambda>w. w \<noteq> [] \<and> take (length w) s = w) toks"

text \<open>\<open>strip toks s\<close> removes leading tokens from \<open>s\<close> for as long as there is one.\<close>

function strip :: "string list \<Rightarrow> string \<Rightarrow> string" where
  "strip toks s =
     (case leading toks s of None \<Rightarrow> s | Some w \<Rightarrow> strip toks (drop (length w) s))"
  by pat_completeness auto
termination
proof (relation "measure (\<lambda>(toks, s). length s)")
  show "wf (measure (\<lambda>(toks, s). length s))" by simp
next
  fix toks :: "string list" and s w :: string
  assume "leading toks s = Some w"
  then have ne: "w \<noteq> []" and pre: "take (length w) s = w"
    by (auto simp: leading_def find_Some_iff)
  from pre have "length (take (length w) s) = length w" by simp
  then have "length w \<le> length s" by simp
  with ne have "length (drop (length w) s) < length s" by (cases w) auto
  then show "((toks, drop (length w) s), (toks, s)) \<in> measure (\<lambda>(toks, s). length s)"
    by simp
qed

declare strip.simps [simp del]

text \<open>Trailing white space is leading white space of the reversed string.\<close>

definition trim :: "string \<Rightarrow> string" where
  "trim s = rev (strip (map rev whitespace) (rev (strip whitespace s)))"

text \<open>\<open>s.includes(p)\<close>: \<open>p\<close> occurs in \<open>s\<close> as a contiguous substring.\<close>

fun includes_str :: "string \<Rightarrow> string \<Rightarrow> bool" where
  "includes_str [] p = (p = [])"
| "includes_str (c # cs) p = (take (length p) (c # cs) = p \<or> includes_str cs p)"

text \<open>ASCII lower-casing, for the \<open>/i\<close> flag of the regular expressions.\<close>

definition lower :: "char \<Rightarrow> char" where
  "lower c = (if CHR ''A'' \<le> c \<and> c \<le> CHR ''Z'' then char_of (of_char c + (32::nat)) else c)"

definition ends_with_ci :: "string \<Rightarrow> string \<Rightarrow> bool" where
  "ends_with_ci s suf =
     (length suf \<le> length s \<and> map lower (drop (length s - length suf) s) = suf)"

section \<open>Data model of \<open>ChatPage\<close>\<close>

text \<open>A message object, as held in the \<open>messages\<close> state and as carried by a frame.\<close>

record msg =
  type' :: "string js"
  message_id :: "string js"
  temp_id :: "string js"
  text' :: "string js"
  media_url :: "string js"
  media_type :: "string js"
  file_name :: "string js"
  created_at :: "string js"
  sender_id :: "string js"
  receiver_id :: "string js"
  sender_name :: "string js"
  edited :: "bool js"
  edited_at :: "string js"
  key :: "string js"

record user =
  id' :: "string js"
  username :: "string js"
  is_online :: "bool js"

text \<open>\<open>WebSocket.readyState\<close>; \<open>ws.current\<close> is \<open>None\<close> while no socket was created.\<close>

datatype ready_state = CONNECTING | OPEN | CLOSING | CLOSED

text \<open>Frames the client passes to \<open>ws.current.send\<close>.\<close>

datatype outbound =
    AuthOut string
  | MessageOut msg
  | EditOut "string js" string
  | DeleteOut "string js"

datatype level = Log | Warn | Err

text \<open>The calls of \<open>setMessages\<close> and of \<open>ws.current.send\<close>, to record their order.\<close>

datatype call = SetMessages | WsSend

text \<open>
  The component state (the \<open>useState\<close> and \<open>useRef\<close> cells) together with the
  effects the handlers have on their environment: the stored token
  (\<open>localStorage\<close>), the calls of \<open>navigate\<close>, the frames sent, the delays of the
  reconnection timers set, the number of sockets created, the number of calls of the
  debounced \<open>fetchMessages\<close>, the console lines, and the calls of \<open>setMessages\<close> and
  \<open>ws.current.send\<close> in the order they were made.  \<open>socket_throws\<close> says whether
  \<open>new WebSocket(WS_URL)\<close> throws in the environment the page runs in.
\<close>

record chat_state =
  currentUser :: "user option"
  users :: "user list"
  selectedUser :: "user option"
  message :: string
  messages :: "msg list"
  editingMessageId :: "string js"
  editText :: string
  uploadingFile :: bool
  connectionStatus :: string
  error :: "string js"
  retryCount :: nat
  ws :: "ready_state option"
  reconnectAttempts :: nat
  files :: "string list"
  token :: "string option"
  navigated :: "string list"
  sent :: "outbound list"
  timers :: "nat list"
  sockets :: nat
  fetch_calls :: nat
  console :: "(level \<times> string) list"
  calls :: "call list"
  socket_throws :: bool

definition say :: "level \<Rightarrow> string \<Rightarrow> chat_state \<Rightarrow> chat_state" where
  "say l s st = st\<lparr>console := console st @ [(l, s)]\<rparr>"

definition setError :: "string js \<Rightarrow> chat_state \<Rightarrow> chat_state" where
  "setError e st = st\<lparr>error := e\<rparr>"

definition navigate :: "string \<Rightarrow> chat_state \<Rightarrow> chat_state" where
  "navigate p st = st\<lparr>navigated := navigated st @ [p]\<rparr>"

definition removeToken :: "chat_state \<Rightarrow> chat_state" where
  "removeToken st = st\<lparr>token := None\<rparr>"

definition send :: "outbound \<Rightarrow> chat_state \<Rightarrow> chat_state" where
  "send f st = st\<lparr>sent := sent st @ [f], calls := calls st @ [WsSend]\<rparr>"

text \<open>\<open>setMessages\<close> with an updater function \<open>(prev) => ...\<close>.\<close>

definition setMessages :: "(msg list \<Rightarrow> msg list) \<Rightarrow> chat_state \<Rightarrow> chat_state" where
  "setMessages f st = st\<lparr>messages := f (messages st), calls := calls st @ [SetMessages]\<rparr>"

text \<open>\<open>currentUser?.id\<close> and \<open>currentUser?.username\<close>.\<close>

definition opt_id :: "user option \<Rightarrow> string js" where
  "opt_id u = (case u of None \<Rightarrow> Undefined | Some x \<Rightarrow> id' x)"

definition opt_username :: "user option \<Rightarrow> string js" where
  "opt_username u = (case u of None \<Rightarrow> Undefined | Some x \<Rightarrow> username x)"

section \<open>Connection handling\<close>

text \<open>
  \<open>connectWebSocket\<close>: nothing happens without a current user or with an open socket.
  Otherwise a new socket is created, which starts in state \<open>CONNECTING\<close>; when the
  constructor throws, \<open>ws.current\<close> keeps its value and the \<open>catch\<close> branch reports it.
\<close>

definition connectWebSocket :: "chat_state \<Rightarrow> chat_state" where
  "connectWebSocket st =
     (if currentUser st = None \<or> ws st = Some OPEN
      then say Log ''Skipping WebSocket connection: already open or no currentUser'' st
      else (let st1 = say Log ''Initiating WebSocket connection to:'' st in
            if socket_throws st1
            then setError (Val ''Failed to establish WebSocket connection.'')
                   ((say Err ''Error creating WebSocket connection:'' st1)
                      \<lparr>connectionStatus := ''error''\<rparr>)
            else st1\<lparr>ws := Some CONNECTING, sockets := Suc (sockets st1)\<rparr>))"

text \<open>\<open>ws.current.onopen\<close>.\<close>

definition onopen :: "chat_state \<Rightarrow> chat_state" where
  "onopen st0 =
     (let st = (say Log ''WebSocket connected successfully'' st0)
                 \<lparr>connectionStatus := ''connected'', reconnectAttempts := 0\<rparr>
      in case token st of
           Some (c # cs) \<Rightarrow>
             send (AuthOut (c # cs)) (say Log ''Sending auth token:'' st)
         | _ \<Rightarrow>
             navigate ''/''
               ((setError (Val ''Session expired. Please log in again.'')
                  (say Err ''No token available for WebSocket auth'' st))
                 \<lparr>ws := Some CLOSING\<rparr>))"

text \<open>\<open>ws.current.onerror\<close>.\<close>

definition onerror :: "chat_state \<Rightarrow> chat_state" where
  "onerror st =
     setError (Val ''WebSocket connection error. Attempting to reconnect...'')
       ((say Err ''WebSocket error:'' st)\<lparr>connectionStatus := ''error''\<rparr>)"

text \<open>
  \<open>ws.current.onclose\<close>: the transport failed.  \<open>Math.min(1000 * Math.pow(2, n), 10000)\<close>
  is exact on the naturals for the values of the counter that occur.
\<close>

definition backoff :: "nat \<Rightarrow> nat" where
  "backoff n = min (1000 * 2 ^ n) 10000"

definition onclose :: "chat_state \<Rightarrow> chat_state" where
  "onclose st0 =
     (let st = (say Log ''WebSocket disconnected:'' st0)\<lparr>connectionStatus := ''disconnected''\<rparr>
      in if reconnectAttempts st < 5
         then (let st1 = st\<lparr>reconnectAttempts := Suc (reconnectAttempts st)\<rparr>;
                   timeout = backoff (reconnectAttempts st1)
               in (say Log ''Scheduling reconnect'' st1)\<lparr>timers := timers st1 @ [timeout]\<rparr>)
         else setError
                (Val ''Failed to reconnect to WebSocket. Polling enabled to keep messages updated.'')
                (say Err ''Max reconnection attempts reached'' st))"

text \<open>The callback of the reconnection timer calls \<open>connectWebSocket\<close>.\<close>

definition reconnect_timer_fires :: "chat_state \<Rightarrow> chat_state" where
  "reconnect_timer_fires st = connectWebSocket (say Log ''Attempting to reconnect...'' st)"

text \<open>The initial values of the state cells, before any user or token is known.\<close>

definition init_state :: chat_state where
  "init_state =
     \<lparr>currentUser = None, users = [], selectedUser = None, message = [], messages = [],
      editingMessageId = Null, editText = [], uploadingFile = False,
      connectionStatus = ''disconnected'', error = Val [], retryCount = 0, ws = None,
      reconnectAttempts = 0, files = [], token = None, navigated = [], sent = [],
      timers = [], sockets = 0, fetch_calls = 0, console = [], calls = [],
      socket_throws = False\<rparr>"

section \<open>Identifiers, keys and media kinds\<close>

text \<open>
  \<open>isValidUUID\<close>: the value is a string and matches
  \<open>/^[0-9a-f]{8}-[0-9a-f]{4}-[1-5][0-9a-f]{3}-[89ab][0-9a-f]{3}-[0-9a-f]{12}$/i\<close>.
\<close>

definition is_hex :: "char \<Rightarrow> bool" where
  "is_hex c = (c \<in> set ''0123456789abcdefABCDEF'')"

definition uuidRegex_test :: "string \<Rightarrow> bool" where
  "uuidRegex_test s =
     (length s = 36 \<and>
      list_all is_hex (take 8 s) \<and> s ! 8 = CHR ''-'' \<and>
      list_all is_hex (take 4 (drop 9 s)) \<and> s ! 13 = CHR ''-'' \<and>
      s ! 14 \<in> set ''12345'' \<and> list_all is_hex (take 3 (drop 15 s)) \<and> s ! 18 = CHR ''-'' \<and>
      s ! 19 \<in> set ''89abAB'' \<and> list_all is_hex (take 3 (drop 20 s)) \<and> s ! 23 = CHR ''-'' \<and>
      list_all is_hex (take 12 (drop 24 s)))"

fun isValidUUID :: "string js \<Rightarrow> bool" where
  "isValidUUID (Val s) = uuidRegex_test s"
| "isValidUUID _ = False"

text \<open>\<open>generateMessageKey\<close>: the template literal prints absent fields as \<open>undefined\<close>.\<close>

definition generateMessageKey :: "msg \<Rightarrow> string" where
  "generateMessageKey m =
     to_str (or_js (message_id m) (temp_id m)) @ ''-'' @ to_str (sender_id m) @ ''-'' @
     to_str (receiver_id m) @ ''-'' @ to_str (created_at m)"

text \<open>
  The fallback for a missing \<open>media_type\<close>:
  \<open>data.media_url?.match(/\.(jpg|jpeg|png|gif)$/i) ? "image" :
    data.media_url?.match(/\.(mp4|webm|ogg)$/i) ? "video" : "file"\<close>.
\<close>

fun url_ends :: "string js \<Rightarrow> string list \<Rightarrow> bool" where
  "url_ends (Val s) sufs = list_ex (ends_with_ci s) sufs"
| "url_ends _ sufs = False"

definition media_kind :: "string js \<Rightarrow> string js" where
  "media_kind url =
     (if url_ends url [''.jpg'', ''.jpeg'', ''.png'', ''.gif''] then Val ''image''
      else if url_ends url [''.mp4'', ''.webm'', ''.ogg''] then Val ''video''
      else Val ''file'')"

section \<open>Inbound frames\<close>

text \<open>
  The state updater of an inbound \<open>message\<close> frame \<open>d\<close>.  \<open>same_message\<close> is the test used
  by both \<open>prev.some\<close> and \<open>prev.map\<close>; \<open>merge_entry\<close> is the object built for a matching
  entry and \<open>new_entry\<close> the one appended when nothing matches.  The updater runs only
  after the frame has passed the conversation check, so \<open>currentUser.username\<close> in
  \<open>new_entry\<close> is read with a current user present.
\<close>

definition same_message :: "msg \<Rightarrow> msg \<Rightarrow> bool" where
  "same_message d m =
     ((truthy (message_id m) \<and> message_id m = message_id d) \<or>
      (truthy (temp_id m) \<and> temp_id m = temp_id d))"

definition merge_entry :: "user option \<Rightarrow> msg \<Rightarrow> msg \<Rightarrow> msg" where
  "merge_entry cu d m =
     m\<lparr>message_id := or_js (message_id d) (message_id m),
       temp_id := (if truthy (temp_id d) then Undefined else temp_id m),
       text' := or_js (text' d) (text' m),
       media_url := or_js (media_url d) (media_url m),
       media_type := or_js (or_js (media_type d) (media_type m)) (media_kind (media_url d)),
       file_name := or_js (file_name d) (file_name m),
       created_at := or_js (created_at d) (created_at m),
       sender_id := sender_id d,
       receiver_id := receiver_id d,
       sender_name := or_js (or_js (sender_name d) (sender_name m)) (opt_username cu),
       edited := or_b (or_b (edited d) (edited m)) (Val False),
       key := Val (generateMessageKey d)\<rparr>"

definition new_entry :: "user option \<Rightarrow> user option \<Rightarrow> msg \<Rightarrow> msg" where
  "new_entry cu su d =
     d\<lparr>message_id := or_js (message_id d) (temp_id d),
       temp_id := (if truthy (temp_id d) then Undefined else temp_id d),
       sender_name :=
         or_js (sender_name d)
           (if sender_id d = opt_id cu then opt_username cu else opt_username su),
       media_type := or_js (media_type d) (media_kind (media_url d)),
       edited := or_b (edited d) (Val False),
       key := Val (generateMessageKey d)\<rparr>"

definition message_updater :: "user option \<Rightarrow> user option \<Rightarrow> msg \<Rightarrow> msg list \<Rightarrow> msg list" where
  "message_updater cu su d prev =
     (if list_ex (same_message d) prev
      then map (\<lambda>m. if same_message d m then merge_entry cu d m else m) prev
      else prev @ [new_entry cu su d])"

text \<open>The updaters of inbound \<open>edit\<close> and \<open>delete\<close> frames.\<close>

definition edit_updater :: "string js \<Rightarrow> string js \<Rightarrow> string js \<Rightarrow> msg list \<Rightarrow> msg list" where
  "edit_updater mid txt at prev =
     map (\<lambda>m. if message_id m = mid then m\<lparr>text' := txt, edited := Val True, edited_at := at\<rparr>
              else m) prev"

definition delete_updater :: "string js \<Rightarrow> msg list \<Rightarrow> msg list" where
  "delete_updater mid prev = filter (\<lambda>m. message_id m \<noteq> mid) prev"

text \<open>
  A received frame after \<open>JSON.parse\<close>, by the branch of the handler it takes:
  the parse failed, the object has no \<open>type\<close>, or one case of the \<open>switch\<close>.
\<close>

datatype inbound =
    Unparsable
  | NoType
  | MessageIn msg
  | EditIn "string js" "string js" "string js"
  | DeleteIn "string js"
  | UserStatusIn "string js" "bool js"
  | ConnectionIn
  | ErrorIn "string js"
  | OtherIn

text \<open>The conversation check of an inbound \<open>message\<close> frame.\<close>

definition current_chat :: "chat_state \<Rightarrow> msg \<Rightarrow> bool" where
  "current_chat st d =
     ((sender_id d = opt_id (currentUser st) \<and> receiver_id d = opt_id (selectedUser st)) \<or>
      (receiver_id d = opt_id (currentUser st) \<and> sender_id d = opt_id (selectedUser st)))"

text \<open>
  \<open>ws.current.onmessage\<close>.  \<open>now_iso\<close> is \<open>new Date().toISOString()\<close> at the time of
  the call.  In the \<open>error\<close> case \<open>data.error.includes\<close> throws on a value that is not
  a string, and the \<open>catch\<close> of the handler reports it.
\<close>

definition onmessage :: "string \<Rightarrow> inbound \<Rightarrow> chat_state \<Rightarrow> chat_state" where
  "onmessage now_iso ev st0 =
     (case ev of
        Unparsable \<Rightarrow>
          setError (Val ''Error receiving message. Please check your connection.'')
            (say Err ''Error parsing WebSocket message:'' st0)
      | _ \<Rightarrow>
     (let st = say Log ''Received WebSocket message:'' st0 in
      case ev of
        Unparsable \<Rightarrow> st
      | NoType \<Rightarrow>
          setError (Val ''Invalid message received from server.'')
            (say Warn ''WebSocket message missing type:'' st)
      | MessageIn d \<Rightarrow>
          (let st1 = say Log ''Processing message:'' st in
           if \<not> truthy (sender_id d) \<or> \<not> truthy (receiver_id d) \<or>
              \<not> isValidUUID (sender_id d) \<or> \<not> isValidUUID (receiver_id d)
           then setError (Val ''Received invalid message data.'')
                  (say Err ''Invalid message data:'' st1)
           else if current_chat st d
           then setMessages (message_updater (currentUser st) (selectedUser st) d)
                  (say Log ''Message matches current chat, updating UI...'' st1)
           else say Log ''Message ignored, does not match current chat:'' st1)
      | EditIn mid txt at \<Rightarrow>
          setMessages (edit_updater mid txt (or_js at (Val now_iso)))
            (say Log ''Processing edit:'' st)
      | DeleteIn mid \<Rightarrow>
          setMessages (delete_updater mid) (say Log ''Processing delete:'' st)
      | UserStatusIn uid online \<Rightarrow>
          (say Log ''Updating user status:'' st)
            \<lparr>users := map (\<lambda>u. if id' u = uid then u\<lparr>is_online := online\<rparr> else u) (users st)\<rparr>
      | ConnectionIn \<Rightarrow> say Log ''Connection status:'' st
      | ErrorIn e \<Rightarrow>
          (let st1 = setError e (say Err ''WebSocket error message:'' st) in
           case e of
             Val s \<Rightarrow>
               if includes_str s ''Invalid token'' \<or> includes_str s ''User not found''
               then navigate ''/'' (removeToken st1)
               else st1
           | _ \<Rightarrow>
               setError (Val ''Error receiving message. Please check your connection.'')
                 (say Err ''Error parsing WebSocket message:'' st1))
      | OtherIn \<Rightarrow> say Warn ''Unhandled WebSocket message type:'' st))"

section \<open>History fetch and REST fallbacks\<close>

text \<open>
  The outcome of a REST call is a parameter: it succeeded with the data returned, or it
  failed, with the HTTP status or the \<open>detail\<close> of the response when there is one.
\<close>

datatype fetch_result = FetchOk "msg list" | FetchFailed "nat option"

datatype api_result = ApiOk | ApiFailed "string js"

datatype upload_result = UploadFailed "string js" | Uploaded "string js" "string js" "string js"

text \<open>
  The body of \<open>fetchMessages\<close>, run by the debounce timer: on success the list is
  replaced by the records returned, each with its key.
\<close>

definition fetchMessages :: "fetch_result \<Rightarrow> chat_state \<Rightarrow> chat_state" where
  "fetchMessages r st =
     (case (selectedUser st, currentUser st) of
        (Some su, Some cu) \<Rightarrow>
          if \<not> isValidUUID (id' cu) \<or> \<not> isValidUUID (id' su)
          then setError (Val ''Invalid user IDs. Please log out and log in again.'')
                 (say Err ''Invalid UUIDs detected:'' st)
          else (let st1 = say Log ''Fetching messages for:'' st in
                case r of
                  FetchOk res_data \<Rightarrow>
                    (setMessages (\<lambda>prev. map (\<lambda>m. m\<lparr>key := Val (generateMessageKey m)\<rparr>) res_data)
                       (say Log ''Messages fetched:'' st1))
                      \<lparr>retryCount := 0\<rparr>
                | FetchFailed status \<Rightarrow>
                    (let st2 = say Err ''Error fetching messages:'' st1 in
                     if status = Some 401
                     then navigate ''/''
                            (removeToken (setError (Val ''Session expired. Please log in again.'') st2))
                     else if status = Some 403
                     then navigate ''/''
                            (removeToken
                              (setError (Val ''Access denied. Please log out and log in again.'')
                                (say Err ''403 Access denied for IDs:'' st2)))
                     else if status = Some 404
                     then setError
                            (Val ''One or both users not found. Please select a valid user.'') st2
                     else setError (Val ''Failed to load messages. Please try again.'') st2))
      | _ \<Rightarrow> say Log ''Skipping fetchMessages: missing selectedUser or currentUser'' st)"

text \<open>A call of the debounced \<open>fetchMessages\<close> only arms the debounce timer.\<close>

definition call_fetchMessages :: "chat_state \<Rightarrow> chat_state" where
  "call_fetchMessages st = st\<lparr>fetch_calls := Suc (fetch_calls st)\<rparr>"

text \<open>
  \<open>editMessageViaAPI\<close> and \<open>deleteMessageViaAPI\<close>: \<open>Inr\<close> is the state after a normal
  return, \<open>Inl\<close> the state at the \<open>throw\<close> that passes the failure on to the caller.
\<close>

definition editMessageViaAPI :: "api_result \<Rightarrow> chat_state \<Rightarrow> chat_state + chat_state" where
  "editMessageViaAPI r st =
     (case r of
        ApiOk \<Rightarrow> Inr (call_fetchMessages (say Log ''Message edited via API:'' st))
      | ApiFailed detail \<Rightarrow>
          Inl (setError (or_js detail (Val ''Failed to edit message. Please try again.''))
                (say Err ''Error editing message via API:'' st)))"

definition deleteMessageViaAPI :: "api_result \<Rightarrow> chat_state \<Rightarrow> chat_state + chat_state" where
  "deleteMessageViaAPI r st =
     (case r of
        ApiOk \<Rightarrow> Inr (call_fetchMessages (say Log ''Message deleted via API:'' st))
      | ApiFailed detail \<Rightarrow>
          Inl (setError (or_js detail (Val ''Failed to delete message. Please try again.''))
                (say Err ''Error deleting message via API:'' st)))"

section \<open>Local actions\<close>

text \<open>
  The object sent for a new message (\<open>msgObj\<close>) and the entry added to the list for it.
  \<open>tempId\<close> is \<open>Date.now().toString()\<close>.  The key is computed from \<open>msgObj\<close> with the
  \<open>message_id\<close> set, which has neither \<open>sender_id\<close> nor \<open>created_at\<close>.
\<close>

definition msgObj :: "user \<Rightarrow> string js \<Rightarrow> string js \<Rightarrow> string js \<Rightarrow> string js \<Rightarrow> string
                      \<Rightarrow> msg" where
  "msgObj su txt url mtype fname tempId =
     \<lparr>type' = Val ''message'', message_id = Undefined, temp_id = Val tempId, text' = txt,
      media_url = url, media_type = mtype, file_name = fname, created_at = Undefined,
      sender_id = Undefined, receiver_id = id' su, sender_name = Undefined,
      edited = Undefined, edited_at = Undefined, key = Undefined\<rparr>"

definition optimistic_entry :: "user \<Rightarrow> msg \<Rightarrow> string \<Rightarrow> string \<Rightarrow> msg" where
  "optimistic_entry cu obj tempId now_iso =
     obj\<lparr>sender_id := id' cu, sender_name := username cu, created_at := Val now_iso,
         message_id := Val tempId, edited := Val False,
         key := Val (generateMessageKey (obj\<lparr>message_id := Val tempId\<rparr>))\<rparr>"

text \<open>
  A \<open>TypeError\<close> raised inside a state updater is not caught by the handler.
\<close>

datatype exn = TypeError

text \<open>
  \<open>handleFileUpload\<close>, called by \<open>handleSendMessage\<close> and by the file input itself.
  \<open>up\<close> is the outcome of the upload request.
\<close>

definition handleFileUpload ::
  "string option \<Rightarrow> upload_result \<Rightarrow> string \<Rightarrow> string \<Rightarrow> chat_state \<Rightarrow> exn + chat_state" where
  "handleFileUpload file up tempId now_iso st =
     (case (file, selectedUser st) of
        (Some f, Some su) \<Rightarrow>
          (case up of
             UploadFailed detail \<Rightarrow>
               Inr ((setError (or_js detail (Val ''Failed to upload file. Please try again.''))
                      (say Err ''Error uploading file:'' st))\<lparr>uploadingFile := False\<rparr>)
           | Uploaded url mtype fname \<Rightarrow>
               (case currentUser st of
                  None \<Rightarrow> Inl TypeError
                | Some cu \<Rightarrow>
                    (let obj = msgObj su (Val (message st)) url mtype fname tempId;
                         st1 = setMessages
                                 (\<lambda>prev. prev @ [optimistic_entry cu obj tempId now_iso]) st;
                         st2 = (if ws st1 = Some OPEN
                                then send (MessageOut obj)
                                       (say Log ''Sending file message via WebSocket:'' st1)
                                else connectWebSocket
                                       (setError (Val ''Connection lost. Trying to reconnect...'')
                                         (say Err ''WebSocket not connected for file message'' st1)))
                     in Inr (st2\<lparr>message := [], files := [], uploadingFile := False\<rparr>))))
      | _ \<Rightarrow>
          Inr (setError (Val ''Please select a file and a user to send to.'')
                (say Err ''No file or selected user for upload'' st)))"

text \<open>\<open>handleSendMessage\<close>; \<open>files st\<close> is \<open>fileInputRef.current?.files\<close>.\<close>

definition handleSendMessage ::
  "upload_result \<Rightarrow> string \<Rightarrow> string \<Rightarrow> chat_state \<Rightarrow> exn + chat_state" where
  "handleSendMessage up tempId now_iso st =
     (case (currentUser st, selectedUser st) of
        (Some cu, Some su) \<Rightarrow>
          if trim (message st) = [] \<and> files st = []
          then Inr (say Warn ''No message or file to send'' st)
          else if ws st \<noteq> Some OPEN
          then Inr (connectWebSocket
                      (setError (Val ''Connection lost. Trying to reconnect...'')
                        (say Err ''WebSocket not connected'' st)))
          else (case files st of
                  f # fs \<Rightarrow> handleFileUpload (Some f) up tempId now_iso st
                | [] \<Rightarrow>
                    (let obj = msgObj su (Val (trim (message st))) Null Null Null tempId;
                         st1 = setMessages
                                 (\<lambda>prev. prev @ [optimistic_entry cu obj tempId now_iso]) st
                     in Inr ((send (MessageOut obj)
                               (say Log ''Sending message via WebSocket:'' st1))\<lparr>message := []\<rparr>)))
      | _ \<Rightarrow>
          Inr (setError (Val ''Please select a user and ensure you are logged in.'')
                (say Err ''Cannot send message: missing user data'' st)))"

text \<open>
  \<open>handleEditMessage\<close>: the optimistic updater, the updater of the \<open>catch\<close> branch
  (commented "Revert optimistic update on failure" in the source), and the handler.
  \<open>r\<close> is the outcome of the REST call, used only when the socket is not open.
\<close>

definition optimistic_edit :: "string js \<Rightarrow> string \<Rightarrow> string \<Rightarrow> msg list \<Rightarrow> msg list" where
  "optimistic_edit messageId txt now_iso prev =
     map (\<lambda>m. if message_id m = messageId
              then m\<lparr>text' := Val txt, edited := Val True, edited_at := Val now_iso\<rparr>
              else m) prev"

definition revert_edit :: "string js \<Rightarrow> msg list \<Rightarrow> msg list" where
  "revert_edit messageId prev =
     map (\<lambda>m. if message_id m = messageId
              then m\<lparr>text' := text' m, edited := or_b (edited m) (Val False),
                     edited_at := or_js (edited_at m) Null\<rparr>
              else m) prev"

definition handleEditMessage :: "string js \<Rightarrow> api_result \<Rightarrow> string \<Rightarrow> chat_state \<Rightarrow> chat_state" where
  "handleEditMessage messageId r now_iso st =
     (if trim (editText st) = []
      then setError (Val ''Cannot edit message. Text cannot be empty.'')
             (say Warn ''Cannot edit message: empty text'' st)
      else (let st1 = setMessages (optimistic_edit messageId (trim (editText st)) now_iso) st
            in if ws st1 = Some OPEN
               then (send (EditOut messageId (trim (editText st)))
                       (say Log ''Sending edit message via WebSocket:'' st1))
                      \<lparr>editingMessageId := Null, editText := []\<rparr>
               else (case editMessageViaAPI r
                            (setError (Val ''Connection lost. Saving edit via API...'')
                              (say Warn ''WebSocket not connected, using API fallback for edit'' st1))
                     of Inr st2 \<Rightarrow> st2\<lparr>editingMessageId := Null, editText := []\<rparr>
                      | Inl st2 \<Rightarrow>
                          connectWebSocket (setMessages (revert_edit messageId) st2))))"

text \<open>
  \<open>handleDeleteMessage\<close>; \<open>confirmed\<close> is the answer to \<open>window.confirm\<close>.
\<close>

definition handleDeleteMessage :: "string js \<Rightarrow> bool \<Rightarrow> api_result \<Rightarrow> chat_state \<Rightarrow> chat_state" where
  "handleDeleteMessage messageId confirmed r st =
     (if confirmed
      then (let st1 = setMessages (filter (\<lambda>m. message_id m \<noteq> messageId)) st
            in if ws st1 = Some OPEN
               then send (DeleteOut messageId)
                      (say Log ''Sending delete message via WebSocket:'' st1)
               else (case deleteMessageViaAPI r
                            (setError (Val ''Connection lost. Deleting via API...'')
                              (say Warn ''WebSocket not connected, using API fallback for delete'' st1))
                     of Inr st2 \<Rightarrow> st2
                      | Inl st2 \<Rightarrow> connectWebSocket (call_fetchMessages st2)))
      else st)"

section \<open>Example data\<close>

text \<open>
  Two users with well-formed identifiers, a third identifier, a connected session of
  \<open>alice\<close> talking to \<open>bob\<close>, and a message object with every field absent.
\<close>

definition uid_a :: string where "uid_a = ''11111111-1111-4111-8111-111111111111''"

definition uid_b :: string where "uid_b = ''22222222-2222-4222-9222-222222222222''"

definition uid_c :: string where "uid_c = ''33333333-3333-4333-a333-333333333333''"

definition alice :: user where
  "alice = \<lparr>id' = Val uid_a, username = Val ''alice'', is_online = Val True\<rparr>"

definition bob :: user where
  "bob = \<lparr>id' = Val uid_b, username = Val ''bob'', is_online = Val True\<rparr>"


definition chat :: chat_state where
  "chat = init_state\<lparr>currentUser := Some alice, selectedUser := Some bob, users := [bob],
            token := Some ''tok'', ws := Some OPEN, connectionStatus := ''connected''\<rparr>"

definition blank :: msg where
  "blank =
     \<lparr>type' = Undefined, message_id = Undefined, temp_id = Undefined, text' = Undefined,
      media_url = Undefined, media_type = Undefined, file_name = Undefined,
      created_at = Undefined, sender_id = Undefined, receiver_id = Undefined,
      sender_name = Undefined, edited = Undefined, edited_at = Undefined, key = Undefined\<rparr>"

text \<open>A stored message \<open>m1\<close> of \<open>alice\<close> with text \<open>hello\<close>, never edited.\<close>

definition hello :: msg where
  "hello = blank\<lparr>message_id := Val ''m1'', text' := Val ''hello'', sender_id := Val uid_a,
             receiver_id := Val uid_b, created_at := Val ''2024-01-02T00:00:00.000Z'',
             edited := Val False\<rparr>"

text \<open>A stored message \<open>m2\<close> of \<open>bob\<close>.\<close>

definition howdy :: msg where
  "howdy = blank\<lparr>message_id := Val ''m2'', text' := Val ''howdy'', sender_id := Val uid_b,
             receiver_id := Val uid_a, created_at := Val ''2024-01-02T00:00:05.000Z'',
             edited := Val False\<rparr>"

text \<open>
  The pending entry of a text \<open>hi\<close> sent by \<open>alice\<close> at time \<open>1700000000000\<close>, the
  server's echo of it carrying the canonical identity \<open>m9\<close> together with the
  \<open>temp_id\<close>, and the same message delivered without the \<open>temp_id\<close>.
\<close>

definition pending_hi :: msg where
  "pending_hi =
     optimistic_entry alice (msgObj bob (Val ''hi'') Null Null Null ''1700000000000'')
       ''1700000000000'' ''2023-11-14T22:13:20.000Z''"

definition echo_plain :: msg where
  "echo_plain = blank\<lparr>type' := Val ''message'', message_id := Val ''m9'', text' := Val ''hi'',
                  sender_id := Val uid_a, receiver_id := Val uid_b,
                  created_at := Val ''2023-11-14T22:13:21.000Z''\<rparr>"

definition echo_hi :: msg where
  "echo_hi = echo_plain\<lparr>temp_id := Val ''1700000000000''\<rparr>"

text \<open>
  Frames used below: a message of a third user to \<open>alice\<close>; a message of \<open>bob\<close> created
  before \<open>hello\<close>; a message of \<open>bob\<close> without a \<open>sender_name\<close>; and a frame for \<open>m1\<close> whose
  text is the empty string and whose \<open>edited\<close> flag is \<open>false\<close>.
\<close>

definition stray :: msg where
  "stray = blank\<lparr>type' := Val ''message'', message_id := Val ''m7'', text' := Val ''psst'',
             sender_id := Val uid_c, receiver_id := Val uid_a,
             created_at := Val ''2024-01-02T00:00:09.000Z''\<rparr>"

definition earlier :: msg where
  "earlier = blank\<lparr>type' := Val ''message'', message_id := Val ''m0'', text' := Val ''first'',
               sender_id := Val uid_b, receiver_id := Val uid_a, sender_name := Val ''bob'',
               created_at := Val ''2024-01-01T00:00:00.000Z''\<rparr>"



section \<open>The ordering asked for by the specification\<close>

text \<open>
  The specification orders the message list by creation timestamp.  The timestamps are
  ISO-8601 strings of one format, which compare as their instants do.  This definition
  follows the specification; the list operations above are the source's.
\<close>

definition ordered_by_created_at :: "msg list \<Rightarrow> bool" where
  "ordered_by_created_at xs = sorted (map (\<lambda>m. to_str (created_at m)) xs)"

section \<open>Reconnection backoff\<close>

lemma onclose_retry:
  "reconnectAttempts s < 5 \<Longrightarrow>
     reconnectAttempts (onclose s) = Suc (reconnectAttempts s) \<and>
     timers (onclose s) = timers s @ [backoff (Suc (reconnectAttempts s))]"
  by (simp add: onclose_def say_def Let_def)

lemma onclose_giveup:
  "\<not> reconnectAttempts s < 5 \<Longrightarrow>
     reconnectAttempts (onclose s) = reconnectAttempts s \<and> timers (onclose s) = timers s"
  by (simp add: onclose_def say_def setError_def Let_def)

lemma onclose_giveup_funpow:
  "\<not> reconnectAttempts s < 5 \<Longrightarrow>
     reconnectAttempts ((onclose ^^ k) s) = reconnectAttempts s \<and>
     timers ((onclose ^^ k) s) = timers s"
  by (induction k) (simp_all add: onclose_giveup)

lemma onclose_five:
  assumes "reconnectAttempts st = 0"
  shows "reconnectAttempts ((onclose ^^ 5) st) = 5 \<and>
         timers ((onclose ^^ 5) st) = timers st @ [2000, 4000, 8000, 10000, 10000]"
proof -
  let ?s1 = "onclose st"
  let ?s2 = "onclose ?s1"
  let ?s3 = "onclose ?s2"
  let ?s4 = "onclose ?s3"
  let ?s5 = "onclose ?s4"
  have 1: "reconnectAttempts ?s1 = 1 \<and> timers ?s1 = timers st @ [2000]"
    using onclose_retry [of st] assms by (simp add: backoff_def)
  have 2: "reconnectAttempts ?s2 = 2 \<and> timers ?s2 = timers st @ [2000, 4000]"
    using onclose_retry [of ?s1] 1 by (simp add: backoff_def)
  have 3: "reconnectAttempts ?s3 = 3 \<and> timers ?s3 = timers st @ [2000, 4000, 8000]"
    using onclose_retry [of ?s2] 2 by (simp add: backoff_def)
  have 4: "reconnectAttempts ?s4 = 4 \<and> timers ?s4 = timers st @ [2000, 4000, 8000, 10000]"
    using onclose_retry [of ?s3] 3 by (simp add: backoff_def)
  have 5: "reconnectAttempts ?s5 = 5 \<and>
           timers ?s5 = timers st @ [2000, 4000, 8000, 10000, 10000]"
    using onclose_retry [of ?s4] 4 by (simp add: backoff_def)
  have "(onclose ^^ 5) st = ?s5" by (simp add: eval_nat_numeral)
  with 5 show ?thesis by simp
qed

lemma onopen_resets: "reconnectAttempts (onopen s) = 0"
  by (simp add: onopen_def say_def setError_def navigate_def send_def Let_def
      split: option.split list.split)

text \<open>
  Claim C4.  Starting from attempt counter 0, five consecutive transport failures
  (\<open>onclose\<close>) set reconnection timers of 2 s, 4 s, 8 s, 10 s and 10 s, in this order,
  and any number of further failures sets no further timer.  Whenever the counter is
  below 5, a failure increments it first and then sets exactly one timer, of
  \<open>min (1000 * 2 ^ counter) 10000\<close> milliseconds for the incremented counter.  A
  successful connect (\<open>onopen\<close>) resets the counter to 0.
\<close>

theorem backoff_sequence:
  assumes "reconnectAttempts st = 0"
  shows "timers ((onclose ^^ 5) st) = timers st @ [2000, 4000, 8000, 10000, 10000]
       \<and> (\<forall>k. timers ((onclose ^^ (5 + k)) st) = timers ((onclose ^^ 5) st))
       \<and> (\<forall>s. reconnectAttempts s < 5 \<longrightarrow>
              reconnectAttempts (onclose s) = Suc (reconnectAttempts s) \<and>
              timers (onclose s) =
                timers s @ [min (1000 * 2 ^ reconnectAttempts (onclose s)) 10000])
       \<and> (\<forall>s. reconnectAttempts (onopen s) = 0)"
proof -
  have five: "reconnectAttempts ((onclose ^^ 5) st) = 5"
    and tm: "timers ((onclose ^^ 5) st) = timers st @ [2000, 4000, 8000, 10000, 10000]"
    using onclose_five [OF assms] by simp_all
  have more: "timers ((onclose ^^ (5 + k)) st) = timers ((onclose ^^ 5) st)" for k
  proof -
    have "(onclose ^^ (5 + k)) st = (onclose ^^ k) ((onclose ^^ 5) st)"
      by (simp add: funpow_add add.commute)
    then show ?thesis using onclose_giveup_funpow [of "(onclose ^^ 5) st" k] five by simp
  qed
  have step: "reconnectAttempts s < 5 \<longrightarrow>
              reconnectAttempts (onclose s) = Suc (reconnectAttempts s) \<and>
              timers (onclose s) =
                timers s @ [min (1000 * 2 ^ reconnectAttempts (onclose s)) 10000]" for s
    using onclose_retry [of s] by (simp add: backoff_def)
  show ?thesis using tm more step onopen_resets by blast
qed

theorem backoff_sequence_witness:
  "reconnectAttempts init_state = 0
   \<and> timers ((onclose ^^ 5) init_state) = [2000, 4000, 8000, 10000, 10000]
   \<and> timers ((onclose ^^ (5 + 3)) init_state) = [2000, 4000, 8000, 10000, 10000]
   \<and> reconnectAttempts (onclose init_state) = 1
   \<and> timers (onclose init_state) = [2000]
   \<and> reconnectAttempts (onopen (onclose init_state)) = 0"
proof -
  have z: "reconnectAttempts init_state = 0" and t: "timers init_state = []"
    by (simp_all add: init_state_def)
  note b = backoff_sequence [OF z]
  have a: "timers ((onclose ^^ 5) init_state) = [2000, 4000, 8000, 10000, 10000]"
    using b t by simp
  have c: "timers ((onclose ^^ (5 + 3)) init_state) = [2000, 4000, 8000, 10000, 10000]"
    using b a by metis
  have d: "reconnectAttempts (onclose init_state) = 1 \<and> timers (onclose init_state) = [2000]"
  proof -
    from b have "reconnectAttempts init_state < 5 \<longrightarrow>
              reconnectAttempts (onclose init_state) = Suc (reconnectAttempts init_state) \<and>
              timers (onclose init_state) =
                timers init_state @ [min (1000 * 2 ^ reconnectAttempts (onclose init_state)) 10000]"
      by blast
    then show ?thesis using z t by simp
  qed
  have e: "reconnectAttempts (onopen (onclose init_state)) = 0" using b by blast
  show ?thesis using z a c d e by simp
qed


section \<open>Local edit with a failing fallback\<close>

lemma revert_edit_text: "map text' (revert_edit i xs) = map text' xs"
  by (simp add: revert_edit_def)

lemma revert_edit_edited:
  "map (\<lambda>m. truthy_b (edited m)) (revert_edit i xs) = map (\<lambda>m. truthy_b (edited m)) xs"
  by (simp add: revert_edit_def or_b_def)

lemma trim_bye: "trim ''bye'' = ''bye''"
  by code_simp

lemma handleEditMessage_failed_fallback:
  assumes "trim (editText st) \<noteq> []" and "ws st \<noteq> Some OPEN"
  shows "messages (handleEditMessage messageId (ApiFailed detail) now_iso st) =
           revert_edit messageId
             (optimistic_edit messageId (trim (editText st)) now_iso (messages st))"
  using assms
  by (simp add: handleEditMessage_def editMessageViaAPI_def setError_def say_def
      setMessages_def connectWebSocket_def Let_def)

text \<open>
  Claim C1.  The message \<open>m1\<close> has text \<open>hello\<close> and was never edited.  It is edited to
  \<open>bye\<close> while the socket is closed, and the REST call fails.  After the updater of the
  \<open>catch\<close> branch has run, the text of \<open>m1\<close> is still \<open>bye\<close> and its \<open>edited\<close> flag
  is still \<open>true\<close>: the updater writes each entry's current text and flag back to it.
\<close>

theorem edit_revert_keeps_optimistic_value:
  "map text' (messages (chat\<lparr>ws := Some CLOSED, messages := [hello], editText := ''bye''\<rparr>))
     = [Val ''hello'']
   \<and> map edited (messages (chat\<lparr>ws := Some CLOSED, messages := [hello], editText := ''bye''\<rparr>))
     = [Val False]
   \<and> map text'
       (messages (handleEditMessage (Val ''m1'') (ApiFailed Undefined) ''2024-01-03T00:00:00.000Z''
          (chat\<lparr>ws := Some CLOSED, messages := [hello], editText := ''bye''\<rparr>)))
     = [Val ''bye'']
   \<and> map edited
       (messages (handleEditMessage (Val ''m1'') (ApiFailed Undefined) ''2024-01-03T00:00:00.000Z''
          (chat\<lparr>ws := Some CLOSED, messages := [hello], editText := ''bye''\<rparr>)))
     = [Val True]"
  by (simp add: handleEditMessage_def chat_def init_state_def hello_def blank_def trim_bye
      optimistic_edit_def revert_edit_def editMessageViaAPI_def setError_def say_def
      setMessages_def connectWebSocket_def or_js_def or_b_def alice_def Let_def)


section \<open>Blank input\<close>

lemma leading_whitespace_all:
  "list_all (\<lambda>w. \<forall>r. leading whitespace (w @ r) = Some w) whitespace"
  by (simp add: whitespace_def leading_def)

lemma leading_whitespace: "w \<in> set whitespace \<Longrightarrow> leading whitespace (w @ r) = Some w"
  using leading_whitespace_all by (simp add: list_all_iff)

lemma strip_whitespace_concat:
  "set toks \<subseteq> set whitespace \<Longrightarrow> strip whitespace (concat toks) = []"
proof (induction toks)
  case Nil
  have "leading whitespace [] = None" by (simp add: leading_def whitespace_def)
  then show ?case by (simp add: strip.simps)
next
  case (Cons w toks)
  then have "leading whitespace (w @ concat toks) = Some w" by (simp add: leading_whitespace)
  then have "strip whitespace (concat (w # toks)) = strip whitespace (concat toks)"
    by (simp add: strip.simps [of whitespace "w @ concat toks"])
  then show ?case using Cons by simp
qed

lemma trim_whitespace_only:
  assumes "set toks \<subseteq> set whitespace"
  shows "trim (concat toks) = []"
proof -
  have "strip whitespace (concat toks) = []" using assms by (rule strip_whitespace_concat)
  moreover have "strip (map rev whitespace) [] = []"
    by (simp add: strip.simps leading_def whitespace_def)
  ultimately show ?thesis by (simp add: trim_def)
qed

text \<open>
  Claim C10.  Let the text be empty or consist of white space only, that is, be a
  concatenation of code points that \<open>trim\<close> strips (ASCII or not).  A send of such a
  text with no file selected returns with the message list and the frames sent
  unchanged and without a call of \<open>setMessages\<close> or \<open>ws.current.send\<close>; so does an edit
  to such a text.
\<close>

theorem blank_input_rejected:
  "(set toks \<subseteq> set whitespace \<and> message st = concat toks \<and> files st = [] \<longrightarrow>
      (\<exists>st'. handleSendMessage up tempId now_iso st = Inr st' \<and>
             messages st' = messages st \<and> sent st' = sent st \<and> calls st' = calls st))
   \<and> (set toks \<subseteq> set whitespace \<and> editText st = concat toks \<longrightarrow>
      messages (handleEditMessage messageId r now_iso st) = messages st \<and>
      sent (handleEditMessage messageId r now_iso st) = sent st \<and>
      calls (handleEditMessage messageId r now_iso st) = calls st)"
proof (intro conjI impI)
  assume a: "set toks \<subseteq> set whitespace \<and> message st = concat toks \<and> files st = []"
  then have t: "trim (message st) = []" using trim_whitespace_only by simp
  show "\<exists>st'. handleSendMessage up tempId now_iso st = Inr st' \<and>
             messages st' = messages st \<and> sent st' = sent st \<and> calls st' = calls st"
    using t a
    by (simp add: handleSendMessage_def say_def setError_def split: option.split)
next
  assume "set toks \<subseteq> set whitespace \<and> editText st = concat toks"
  then have t: "trim (editText st) = []" using trim_whitespace_only by simp
  then show "messages (handleEditMessage messageId r now_iso st) = messages st"
    by (simp add: handleEditMessage_def say_def setError_def)
  from t show "sent (handleEditMessage messageId r now_iso st) = sent st"
    by (simp add: handleEditMessage_def say_def setError_def)
  from t show "calls (handleEditMessage messageId r now_iso st) = calls st"
    by (simp add: handleEditMessage_def say_def setError_def)
qed

text \<open>
  A send of a no-break space (U+00A0) followed by a space, and an edit to a line
  separator (U+2028), in a session that holds the message \<open>hello\<close>; and a send and an edit
  of the empty text.
\<close>

theorem blank_input_rejected_witness:
  "set [[CHR 0xC2, CHR 0xA0], [CHR 0x20]] \<subseteq> set whitespace
   \<and> message (chat\<lparr>message := [CHR 0xC2, CHR 0xA0, CHR 0x20], messages := [hello]\<rparr>)
       = concat [[CHR 0xC2, CHR 0xA0], [CHR 0x20]]
   \<and> files (chat\<lparr>message := [CHR 0xC2, CHR 0xA0, CHR 0x20], messages := [hello]\<rparr>) = []
   \<and> (\<exists>st'. handleSendMessage (UploadFailed Undefined) ''1700000000000''
              ''2023-11-14T22:13:20.000Z''
              (chat\<lparr>message := [CHR 0xC2, CHR 0xA0, CHR 0x20], messages := [hello]\<rparr>) = Inr st' \<and>
            messages st' = [hello] \<and> sent st' = [] \<and> calls st' = [])
   \<and> set [[CHR 0xE2, CHR 0x80, CHR 0xA8]] \<subseteq> set whitespace
   \<and> editText (chat\<lparr>messages := [hello], editText := [CHR 0xE2, CHR 0x80, CHR 0xA8]\<rparr>)
       = concat [[CHR 0xE2, CHR 0x80, CHR 0xA8]]
   \<and> messages (handleEditMessage (Val ''m1'') ApiOk ''2024-01-03T00:00:00.000Z''
        (chat\<lparr>messages := [hello], editText := [CHR 0xE2, CHR 0x80, CHR 0xA8]\<rparr>)) = [hello]
   \<and> sent (handleEditMessage (Val ''m1'') ApiOk ''2024-01-03T00:00:00.000Z''
        (chat\<lparr>messages := [hello], editText := [CHR 0xE2, CHR 0x80, CHR 0xA8]\<rparr>)) = []
   \<and> (\<exists>st'. handleSendMessage (UploadFailed Undefined) ''1700000000000''
              ''2023-11-14T22:13:20.000Z'' (chat\<lparr>messages := [hello]\<rparr>) = Inr st' \<and>
            messages st' = [hello] \<and> sent st' = [])
   \<and> messages (handleEditMessage (Val ''m1'') ApiOk ''2024-01-03T00:00:00.000Z''
        (chat\<lparr>messages := [hello]\<rparr>)) = [hello]"
proof -
  let ?S = "chat\<lparr>message := [CHR 0xC2, CHR 0xA0, CHR 0x20], messages := [hello]\<rparr>"
  let ?E = "chat\<lparr>messages := [hello], editText := [CHR 0xE2, CHR 0x80, CHR 0xA8]\<rparr>"
  let ?Z = "chat\<lparr>messages := [hello]\<rparr>"
  have w1: "set [[CHR 0xC2, CHR 0xA0], [CHR 0x20]] \<subseteq> set whitespace"
    and w2: "set [[CHR 0xE2, CHR 0x80, CHR 0xA8]] \<subseteq> set whitespace"
    and w0: "set ([] :: string list) \<subseteq> set whitespace"
    by (simp_all add: whitespace_def)
  have s: "message ?S = concat [[CHR 0xC2, CHR 0xA0], [CHR 0x20]]" "files ?S = []"
      "messages ?S = [hello]" "sent ?S = []" "calls ?S = []"
    by (simp_all add: chat_def init_state_def)
  have e: "editText ?E = concat [[CHR 0xE2, CHR 0x80, CHR 0xA8]]"
      "messages ?E = [hello]" "sent ?E = []"
    by (simp_all add: chat_def init_state_def)
  have z: "message ?Z = concat []" "editText ?Z = concat []" "files ?Z = []"
      "messages ?Z = [hello]" "sent ?Z = []"
    by (simp_all add: chat_def init_state_def)
  note a = blank_input_rejected [where toks = "[[CHR 0xC2, CHR 0xA0], [CHR 0x20]]" and st = ?S
      and up = "UploadFailed Undefined" and tempId = "''1700000000000''"
      and now_iso = "''2023-11-14T22:13:20.000Z''"]
  note b = blank_input_rejected [where toks = "[[CHR 0xE2, CHR 0x80, CHR 0xA8]]" and st = ?E
      and messageId = "Val ''m1''" and r = ApiOk and now_iso = "''2024-01-03T00:00:00.000Z''"]
  note c = blank_input_rejected [where toks = "[]" and st = ?Z
      and up = "UploadFailed Undefined" and tempId = "''1700000000000''"
      and now_iso = "''2023-11-14T22:13:20.000Z''"]
  note d = blank_input_rejected [where toks = "[]" and st = ?Z
      and messageId = "Val ''m1''" and r = ApiOk and now_iso = "''2024-01-03T00:00:00.000Z''"]
  have 1: "\<exists>st'. handleSendMessage (UploadFailed Undefined) ''1700000000000''
              ''2023-11-14T22:13:20.000Z'' ?S = Inr st' \<and>
            messages st' = [hello] \<and> sent st' = [] \<and> calls st' = []"
    using a w1 s by metis
  have 2: "messages (handleEditMessage (Val ''m1'') ApiOk ''2024-01-03T00:00:00.000Z'' ?E) = [hello]"
    and 3: "sent (handleEditMessage (Val ''m1'') ApiOk ''2024-01-03T00:00:00.000Z'' ?E) = []"
    using b w2 e by metis+
  have 4: "\<exists>st'. handleSendMessage (UploadFailed Undefined) ''1700000000000''
              ''2023-11-14T22:13:20.000Z'' ?Z = Inr st' \<and>
            messages st' = [hello] \<and> sent st' = []"
    using c w0 z by metis
  have 5: "messages (handleEditMessage (Val ''m1'') ApiOk ''2024-01-03T00:00:00.000Z'' ?Z) = [hello]"
    using d w0 z by metis
  from w1 s(1) s(2) 1 w2 e(1) 2 3 4 5 show ?thesis by (intro conjI)
qed

section \<open>Inbound edit and delete frames\<close>

lemma messages_onmessage_edit:
  "messages (onmessage now_iso (EditIn mid txt at) st) =
     edit_updater mid txt (or_js at (Val now_iso)) (messages st)"
  by (simp add: onmessage_def say_def setMessages_def Let_def)

lemma messages_onmessage_delete:
  "messages (onmessage now_iso (DeleteIn mid) st) = delete_updater mid (messages st)"
  by (simp add: onmessage_def say_def setMessages_def Let_def)

lemma error_onmessage_edit_delete:
  "error (onmessage now_iso (EditIn mid txt at) st) = error st \<and>
   error (onmessage now_iso (DeleteIn mid) st) = error st"
  by (simp add: onmessage_def say_def setMessages_def Let_def)

lemma edit_updater_unknown:
  "\<forall>m\<in>set prev. message_id m \<noteq> mid \<Longrightarrow> edit_updater mid txt at prev = prev"
  by (simp add: edit_updater_def map_idI)

lemma delete_updater_unknown:
  "\<forall>m\<in>set prev. message_id m \<noteq> mid \<Longrightarrow> delete_updater mid prev = prev"
  by (simp add: delete_updater_def)

lemma delete_updater_single:
  assumes "i < length prev" and "message_id (prev ! i) = mid"
    and "\<forall>j<length prev. j \<noteq> i \<longrightarrow> message_id (prev ! j) \<noteq> mid"
  shows "delete_updater mid prev = take i prev @ drop (Suc i) prev"
proof -
  have p: "prev = take i prev @ prev ! i # drop (Suc i) prev"
    using assms(1) by (simp add: id_take_nth_drop)
  have a: "\<forall>m\<in>set (take i prev). message_id m \<noteq> mid"
  proof
    fix m assume "m \<in> set (take i prev)"
    then obtain j where "j < length (take i prev)" "take i prev ! j = m"
      by (auto simp: in_set_conv_nth)
    then have "j < i" "j < length prev" "prev ! j = m" using assms(1) by auto
    then show "message_id m \<noteq> mid" using assms(3) by auto
  qed
  have b: "\<forall>m\<in>set (drop (Suc i) prev). message_id m \<noteq> mid"
  proof
    fix m assume "m \<in> set (drop (Suc i) prev)"
    then obtain j where j: "j < length (drop (Suc i) prev)" "drop (Suc i) prev ! j = m"
      by (auto simp: in_set_conv_nth)
    then have "Suc i + j < length prev" "prev ! (Suc i + j) = m" by auto
    then show "message_id m \<noteq> mid" using assms(3) by auto
  qed
  have "delete_updater mid prev =
          delete_updater mid (take i prev) @ delete_updater mid [prev ! i] @
          delete_updater mid (drop (Suc i) prev)"
    by (subst p) (simp add: delete_updater_def)
  then show ?thesis
    using delete_updater_unknown [OF a] delete_updater_unknown [OF b] assms(2)
    by (simp add: delete_updater_def)
qed

lemma delete_updater_remainder:
  "subseq (delete_updater mid prev) prev \<and>
   (\<forall>m\<in>set (delete_updater mid prev). message_id m \<noteq> mid) \<and>
   length (delete_updater mid prev) + length (filter (\<lambda>m. message_id m = mid) prev) = length prev"
proof -
  have "length (filter (\<lambda>m. message_id m = mid) prev) +
        length (filter (\<lambda>m. \<not> message_id m = mid) prev) = length prev"
    by (rule sum_length_filter_compl)
  then show ?thesis by (simp add: delete_updater_def)
qed

text \<open>
  Claim C8.  An inbound \<open>edit\<close> or \<open>delete\<close> frame whose \<open>message_id\<close> equals that of
  no entry leaves the message list and the error banner as they were.  An \<open>edit\<close> frame
  keeps the length of the list, sets the text of every entry with that \<open>message_id\<close> to
  the text of the frame and marks it edited, and leaves every other entry as it was.  A
  \<open>delete\<close> frame removes every entry with that \<open>message_id\<close>, as many as there are: what
  remains is a subsequence of the list, holds no entry with that \<open>message_id\<close>, and is
  shorter by the number of entries that had it.  When one entry only has that
  \<open>message_id\<close>, exactly that entry is removed.
\<close>

theorem edit_delete_events:
  "((\<forall>m\<in>set (messages st). message_id m \<noteq> mid) \<longrightarrow>
       messages (onmessage now_iso (EditIn mid txt at) st) = messages st \<and>
       error (onmessage now_iso (EditIn mid txt at) st) = error st \<and>
       messages (onmessage now_iso (DeleteIn mid) st) = messages st \<and>
       error (onmessage now_iso (DeleteIn mid) st) = error st)
   \<and> length (messages (onmessage now_iso (EditIn mid txt at) st)) = length (messages st)
   \<and> (\<forall>i<length (messages st).
        if message_id (messages st ! i) = mid
        then text' (messages (onmessage now_iso (EditIn mid txt at) st) ! i) = txt \<and>
             edited (messages (onmessage now_iso (EditIn mid txt at) st) ! i) = Val True \<and>
             message_id (messages (onmessage now_iso (EditIn mid txt at) st) ! i) = mid
        else messages (onmessage now_iso (EditIn mid txt at) st) ! i = messages st ! i)
   \<and> subseq (messages (onmessage now_iso (DeleteIn mid) st)) (messages st)
   \<and> (\<forall>m\<in>set (messages (onmessage now_iso (DeleteIn mid) st)). message_id m \<noteq> mid)
   \<and> length (messages (onmessage now_iso (DeleteIn mid) st)) +
       length (filter (\<lambda>m. message_id m = mid) (messages st)) = length (messages st)
   \<and> (\<forall>i<length (messages st).
        message_id (messages st ! i) = mid \<and>
        (\<forall>j<length (messages st). j \<noteq> i \<longrightarrow> message_id (messages st ! j) \<noteq> mid) \<longrightarrow>
        messages (onmessage now_iso (DeleteIn mid) st) =
          take i (messages st) @ drop (Suc i) (messages st))"
proof (intro conjI)
  show "(\<forall>m\<in>set (messages st). message_id m \<noteq> mid) \<longrightarrow>
       messages (onmessage now_iso (EditIn mid txt at) st) = messages st \<and>
       error (onmessage now_iso (EditIn mid txt at) st) = error st \<and>
       messages (onmessage now_iso (DeleteIn mid) st) = messages st \<and>
       error (onmessage now_iso (DeleteIn mid) st) = error st"
    using edit_updater_unknown delete_updater_unknown error_onmessage_edit_delete
    by (simp add: messages_onmessage_edit messages_onmessage_delete)
  show "length (messages (onmessage now_iso (EditIn mid txt at) st)) = length (messages st)"
    by (simp add: messages_onmessage_edit edit_updater_def)
  show "\<forall>i<length (messages st).
        if message_id (messages st ! i) = mid
        then text' (messages (onmessage now_iso (EditIn mid txt at) st) ! i) = txt \<and>
             edited (messages (onmessage now_iso (EditIn mid txt at) st) ! i) = Val True \<and>
             message_id (messages (onmessage now_iso (EditIn mid txt at) st) ! i) = mid
        else messages (onmessage now_iso (EditIn mid txt at) st) ! i = messages st ! i"
    by (simp add: messages_onmessage_edit edit_updater_def)
  show "subseq (messages (onmessage now_iso (DeleteIn mid) st)) (messages st)"
    unfolding messages_onmessage_delete using delete_updater_remainder by blast
  show "\<forall>m\<in>set (messages (onmessage now_iso (DeleteIn mid) st)). message_id m \<noteq> mid"
    unfolding messages_onmessage_delete using delete_updater_remainder by blast
  show "length (messages (onmessage now_iso (DeleteIn mid) st)) +
       length (filter (\<lambda>m. message_id m = mid) (messages st)) = length (messages st)"
    unfolding messages_onmessage_delete using delete_updater_remainder by blast
  show "\<forall>i<length (messages st).
        message_id (messages st ! i) = mid \<and>
        (\<forall>j<length (messages st). j \<noteq> i \<longrightarrow> message_id (messages st ! j) \<noteq> mid) \<longrightarrow>
        messages (onmessage now_iso (DeleteIn mid) st) =
          take i (messages st) @ drop (Suc i) (messages st)"
    using delete_updater_single by (simp add: messages_onmessage_delete)
qed

text \<open>
  The list holds two entries with the identity \<open>m9\<close>: the stored message and its
  promoted pending entry, as the merge of the echo leaves them.  One \<open>delete\<close> frame for
  \<open>m9\<close> matches the first of them and removes both.
\<close>

theorem delete_removes_every_duplicate:
  "length (messages (chat\<lparr>messages := message_updater (Some alice) (Some bob) echo_hi
              [new_entry (Some alice) (Some bob) echo_plain, pending_hi]\<rparr>)) = 2
   \<and> map message_id (messages (chat\<lparr>messages := message_updater (Some alice) (Some bob) echo_hi
              [new_entry (Some alice) (Some bob) echo_plain, pending_hi]\<rparr>))
       = [Val ''m9'', Val ''m9'']
   \<and> messages (onmessage [] (DeleteIn (Val ''m9''))
        (chat\<lparr>messages := message_updater (Some alice) (Some bob) echo_hi
              [new_entry (Some alice) (Some bob) echo_plain, pending_hi]\<rparr>)) = []"
  by (simp add: onmessage_def say_def setMessages_def delete_updater_def Let_def
      message_updater_def same_message_def merge_entry_def new_entry_def or_js_def
      echo_hi_def echo_plain_def pending_hi_def optimistic_entry_def msgObj_def blank_def)


theorem edit_delete_events_witness:
  "list_all (\<lambda>m. message_id m \<noteq> Val ''m3'') (messages (chat\<lparr>messages := [hello, howdy]\<rparr>))
   \<and> messages (onmessage ''2024-01-03T00:00:00.000Z'' (EditIn (Val ''m3'') (Val ''bye'') Undefined)
        (chat\<lparr>messages := [hello, howdy]\<rparr>)) = [hello, howdy]
   \<and> messages (onmessage ''2024-01-03T00:00:00.000Z'' (DeleteIn (Val ''m3''))
        (chat\<lparr>messages := [hello, howdy]\<rparr>)) = [hello, howdy]
   \<and> text' (messages (onmessage ''2024-01-03T00:00:00.000Z''
        (EditIn (Val ''m1'') (Val ''bye'') Undefined) (chat\<lparr>messages := [hello, howdy]\<rparr>)) ! 0)
       = Val ''bye''
   \<and> edited (messages (onmessage ''2024-01-03T00:00:00.000Z''
        (EditIn (Val ''m1'') (Val ''bye'') Undefined) (chat\<lparr>messages := [hello, howdy]\<rparr>)) ! 0)
       = Val True
   \<and> messages (onmessage ''2024-01-03T00:00:00.000Z''
        (EditIn (Val ''m1'') (Val ''bye'') Undefined) (chat\<lparr>messages := [hello, howdy]\<rparr>)) ! 1
       = howdy
   \<and> messages (onmessage ''2024-01-03T00:00:00.000Z'' (DeleteIn (Val ''m1''))
        (chat\<lparr>messages := [hello, howdy]\<rparr>)) = [howdy]
   \<and> length (messages (onmessage ''2024-01-03T00:00:00.000Z'' (DeleteIn (Val ''m1''))
        (chat\<lparr>messages := [hello, hello, howdy]\<rparr>))) = 1"
proof -
  let ?S = "chat\<lparr>messages := [hello, howdy]\<rparr>"
  let ?D = "chat\<lparr>messages := [hello, hello, howdy]\<rparr>"
  let ?now = "''2024-01-03T00:00:00.000Z''"
  have ms: "messages ?S = [hello, howdy]" and md: "messages ?D = [hello, hello, howdy]"
    by simp_all
  have ids: "message_id hello = Val ''m1''" "message_id howdy = Val ''m2''"
    by (simp_all add: hello_def howdy_def blank_def)
  have unknown: "\<forall>m\<in>set (messages ?S). message_id m \<noteq> Val ''m3''"
    unfolding ms using ids by simp
  note u = edit_delete_events [of ?S "Val ''m3''" ?now "Val ''bye''" Undefined]
  note k = edit_delete_events [of ?S "Val ''m1''" ?now "Val ''bye''" Undefined]
  note dd = edit_delete_events [of ?D "Val ''m1''" ?now "Val ''bye''" Undefined]
  from u [THEN conjunct1] unknown
  have a: "messages (onmessage ?now (EditIn (Val ''m3'') (Val ''bye'') Undefined) ?S) = messages ?S"
    and b: "messages (onmessage ?now (DeleteIn (Val ''m3'')) ?S) = messages ?S"
    by blast+
  note ke = k [THEN conjunct2, THEN conjunct2, THEN conjunct1]
  have i0: "0 < length (messages ?S)" and i1: "1 < length (messages ?S)"
    unfolding ms by simp_all
  have h0: "message_id (messages ?S ! 0) = Val ''m1''"
    and h1: "message_id (messages ?S ! 1) \<noteq> Val ''m1''"
    unfolding ms using ids by simp_all
  from ke i0 h0
  have e0: "text' (messages (onmessage ?now (EditIn (Val ''m1'') (Val ''bye'') Undefined) ?S) ! 0)
              = Val ''bye''"
    and e0': "edited (messages (onmessage ?now (EditIn (Val ''m1'') (Val ''bye'') Undefined) ?S) ! 0)
              = Val True"
    by metis+
  from ke i1 h1
  have e1: "messages (onmessage ?now (EditIn (Val ''m1'') (Val ''bye'') Undefined) ?S) ! 1
              = messages ?S ! 1"
    by metis
  note kd = k [THEN conjunct2, THEN conjunct2, THEN conjunct2, THEN conjunct2, THEN conjunct2,
      THEN conjunct2]
  have single: "message_id (messages ?S ! 0) = Val ''m1'' \<and>
        (\<forall>j<length (messages ?S). j \<noteq> 0 \<longrightarrow> message_id (messages ?S ! j) \<noteq> Val ''m1'')"
    unfolding ms using ids by (simp add: less_Suc_eq)
  from kd i0 single
  have d: "messages (onmessage ?now (DeleteIn (Val ''m1'')) ?S) =
             take 0 (messages ?S) @ drop (Suc 0) (messages ?S)"
    by blast
  note dl = dd [THEN conjunct2, THEN conjunct2, THEN conjunct2, THEN conjunct2, THEN conjunct2,
      THEN conjunct1]
  have two: "length (filter (\<lambda>m. message_id m = Val ''m1'') (messages ?D)) = 2"
    unfolding md using ids by simp
  from dl two have l: "length (messages (onmessage ?now (DeleteIn (Val ''m1'')) ?D)) = 1"
    unfolding md by simp
  have 1: "list_all (\<lambda>m. message_id m \<noteq> Val ''m3'') (messages ?S)"
    using unknown by (simp only: list_all_iff)
  have 2: "messages (onmessage ?now (EditIn (Val ''m3'') (Val ''bye'') Undefined) ?S) = [hello, howdy]"
    using a ms by simp
  have 3: "messages (onmessage ?now (DeleteIn (Val ''m3'')) ?S) = [hello, howdy]"
    using b ms by simp
  have 6: "messages (onmessage ?now (EditIn (Val ''m1'') (Val ''bye'') Undefined) ?S) ! 1 = howdy"
    using e1 ms by simp
  have 7: "messages (onmessage ?now (DeleteIn (Val ''m1'')) ?S) = [howdy]"
    using d ms by simp
  from 1 2 3 e0 e0' 6 7 l show ?thesis by (intro conjI)
qed

section \<open>Inbound error frames\<close>

lemma includes_str_iff: "includes_str s p \<longleftrightarrow> (\<exists>a b. s = a @ p @ b)"
proof (induction s)
  case Nil
  then show ?case by simp
next
  case (Cons c cs)
  show ?case
  proof
    assume "includes_str (c # cs) p"
    then consider "take (length p) (c # cs) = p" | "includes_str cs p" by auto
    then show "\<exists>a b. c # cs = a @ p @ b"
    proof cases
      case 1
      then have "c # cs = [] @ p @ drop (length p) (c # cs)"
        by (metis append_Nil append_take_drop_id)
      then show ?thesis by blast
    next
      case 2
      then obtain a b where "cs = a @ p @ b" using Cons.IH by blast
      then have "c # cs = (c # a) @ p @ b" by simp
      then show ?thesis by blast
    qed
  next
    assume "\<exists>a b. c # cs = a @ p @ b"
    then obtain a b where ab: "c # cs = a @ p @ b" by blast
    show "includes_str (c # cs) p"
    proof (cases a)
      case Nil
      then have "take (length p) (c # cs) = p" using ab by simp
      then show ?thesis by simp
    next
      case (Cons x xs)
      then have "cs = xs @ p @ b" using ab by simp
      then have "includes_str cs p" using Cons.IH by blast
      then show ?thesis by simp
    qed
  qed
qed

text \<open>
  Claim C9.  For an inbound \<open>error\<close> frame: when its \<open>error\<close> field is a string that
  contains \<open>Invalid token\<close> or \<open>User not found\<close> as a substring, the stored token is
  removed, \<open>navigate("/")\<close> is called and the text is shown as the error banner.  In
  every other case the token and the navigation are left as they were and the banner
  shows the text (or, for a field that is not a string, the message of the handler's
  \<open>catch\<close>).  The message list and the frames sent never change.
\<close>

theorem error_frame_classified:
  "((\<exists>s a b. e = Val s \<and> (s = a @ ''Invalid token'' @ b \<or> s = a @ ''User not found'' @ b)) \<longrightarrow>
      token (onmessage now_iso (ErrorIn e) st) = None \<and>
      navigated (onmessage now_iso (ErrorIn e) st) = navigated st @ [''/''] \<and>
      error (onmessage now_iso (ErrorIn e) st) = e)
   \<and> (\<not> (\<exists>s a b. e = Val s \<and> (s = a @ ''Invalid token'' @ b \<or> s = a @ ''User not found'' @ b)) \<longrightarrow>
      token (onmessage now_iso (ErrorIn e) st) = token st \<and>
      navigated (onmessage now_iso (ErrorIn e) st) = navigated st \<and>
      error (onmessage now_iso (ErrorIn e) st) =
        (case e of Val s \<Rightarrow> e
         | _ \<Rightarrow> Val ''Error receiving message. Please check your connection.''))
   \<and> messages (onmessage now_iso (ErrorIn e) st) = messages st
   \<and> sent (onmessage now_iso (ErrorIn e) st) = sent st"
proof (cases e)
  case (Val s)
  have c: "(\<exists>s' a b. e = Val s' \<and> (s' = a @ ''Invalid token'' @ b \<or> s' = a @ ''User not found'' @ b))
        \<longleftrightarrow> includes_str s ''Invalid token'' \<or> includes_str s ''User not found''"
    using Val by (auto simp: includes_str_iff)
  show ?thesis
    unfolding c using Val
    by (simp add: onmessage_def say_def setMessages_def setError_def navigate_def removeToken_def Let_def)
next
  case Undefined
  then show ?thesis
    by (simp add: onmessage_def say_def setMessages_def setError_def Let_def)
next
  case Null
  then show ?thesis
    by (simp add: onmessage_def say_def setMessages_def setError_def Let_def)
qed

theorem error_frame_classified_witness:
  "(\<exists>s a b. Val ''Auth failed: Invalid token'' = Val s \<and>
       (s = a @ ''Invalid token'' @ b \<or> s = a @ ''User not found'' @ b))
   \<and> token (onmessage [] (ErrorIn (Val ''Auth failed: Invalid token'')) chat) = None
   \<and> navigated (onmessage [] (ErrorIn (Val ''Auth failed: Invalid token'')) chat) = [''/'']
   \<and> \<not> (\<exists>s a b. Val ''Receiver is offline'' = Val s \<and>
       (s = a @ ''Invalid token'' @ b \<or> s = a @ ''User not found'' @ b))
   \<and> token (onmessage [] (ErrorIn (Val ''Receiver is offline'')) chat) = Some ''tok''
   \<and> navigated (onmessage [] (ErrorIn (Val ''Receiver is offline'')) chat) = []
   \<and> error (onmessage [] (ErrorIn (Val ''Receiver is offline'')) chat) = Val ''Receiver is offline''"
proof -
  have y: "\<exists>s a b. Val ''Auth failed: Invalid token'' = Val s \<and>
       (s = a @ ''Invalid token'' @ b \<or> s = a @ ''User not found'' @ b)"
  proof -
    have "''Auth failed: Invalid token'' = ''Auth failed: '' @ ''Invalid token'' @ []" by simp
    then show ?thesis by blast
  qed
  have n: "\<not> (\<exists>s a b. Val ''Receiver is offline'' = Val s \<and>
       (s = a @ ''Invalid token'' @ b \<or> s = a @ ''User not found'' @ b))"
  proof -
    have "\<not> includes_str ''Receiver is offline'' ''Invalid token''"
         "\<not> includes_str ''Receiver is offline'' ''User not found''" by simp_all
    then show ?thesis by (auto simp: includes_str_iff)
  qed
  have c: "token chat = Some ''tok''" "navigated chat = []"
    by (simp_all add: chat_def init_state_def)
  show ?thesis
    using error_frame_classified [of "Val ''Auth failed: Invalid token''" "[]" chat]
      error_frame_classified [of "Val ''Receiver is offline''" "[]" chat] y n c
    by simp
qed


section \<open>Validation of inbound message frames\<close>

lemma valid_uuid_truthy: "isValidUUID v \<Longrightarrow> truthy v"
  by (cases v) (auto simp: uuidRegex_test_def)

text \<open>
  Claim C7.  An inbound \<open>message\<close> frame changes the message list only if its
  \<open>sender_id\<close> and \<open>receiver_id\<close> both match the UUID pattern and the pair is the pair of
  the current and the selected user, in either direction; such a frame is passed to the
  updater.  A frame with a malformed identifier leaves the list unchanged and sets the
  error banner to \<open>Received invalid message data.\<close>  A frame with well-formed identifiers
  of another pair leaves the list and the error banner unchanged: it is only written to
  the console, at level \<open>log\<close>.
\<close>

theorem inbound_message_validated:
  "(messages (onmessage now_iso (MessageIn d) st) \<noteq> messages st \<longrightarrow>
      isValidUUID (sender_id d) \<and> isValidUUID (receiver_id d) \<and>
      ((sender_id d = opt_id (currentUser st) \<and> receiver_id d = opt_id (selectedUser st)) \<or>
       (receiver_id d = opt_id (currentUser st) \<and> sender_id d = opt_id (selectedUser st))))
   \<and> (isValidUUID (sender_id d) \<and> isValidUUID (receiver_id d) \<and>
       ((sender_id d = opt_id (currentUser st) \<and> receiver_id d = opt_id (selectedUser st)) \<or>
        (receiver_id d = opt_id (currentUser st) \<and> sender_id d = opt_id (selectedUser st))) \<longrightarrow>
      messages (onmessage now_iso (MessageIn d) st) =
        message_updater (currentUser st) (selectedUser st) d (messages st) \<and>
      error (onmessage now_iso (MessageIn d) st) = error st)
   \<and> (\<not> (isValidUUID (sender_id d) \<and> isValidUUID (receiver_id d)) \<longrightarrow>
      messages (onmessage now_iso (MessageIn d) st) = messages st \<and>
      error (onmessage now_iso (MessageIn d) st) = Val ''Received invalid message data.'')
   \<and> (isValidUUID (sender_id d) \<and> isValidUUID (receiver_id d) \<and>
       \<not> ((sender_id d = opt_id (currentUser st) \<and> receiver_id d = opt_id (selectedUser st)) \<or>
          (receiver_id d = opt_id (currentUser st) \<and> sender_id d = opt_id (selectedUser st))) \<longrightarrow>
      messages (onmessage now_iso (MessageIn d) st) = messages st \<and>
      error (onmessage now_iso (MessageIn d) st) = error st \<and>
      console (onmessage now_iso (MessageIn d) st) =
        console st @ [(Log, ''Received WebSocket message:''), (Log, ''Processing message:''),
                      (Log, ''Message ignored, does not match current chat:'')])"
proof -
  have t: "isValidUUID (sender_id d) \<Longrightarrow> truthy (sender_id d)"
          "isValidUUID (receiver_id d) \<Longrightarrow> truthy (receiver_id d)"
    by (simp_all add: valid_uuid_truthy)
  show ?thesis
    using t
    by (auto simp: onmessage_def current_chat_def say_def setMessages_def setError_def Let_def)
qed

text \<open>
  The frame \<open>stray\<close>, of a third user to \<open>alice\<close> while \<open>bob\<close> is selected, fails the
  conversation check; the list is unchanged, and so is the error banner: no warning is
  surfaced.
\<close>

theorem stray_message_dropped_silently:
  "isValidUUID (sender_id stray) \<and> isValidUUID (receiver_id stray)
   \<and> \<not> ((sender_id stray = opt_id (currentUser chat) \<and>
          receiver_id stray = opt_id (selectedUser chat)) \<or>
         (receiver_id stray = opt_id (currentUser chat) \<and>
          sender_id stray = opt_id (selectedUser chat)))
   \<and> messages (onmessage [] (MessageIn stray) chat) = messages chat
   \<and> error (onmessage [] (MessageIn stray) chat) = error chat
   \<and> error chat = Val []
   \<and> console (onmessage [] (MessageIn stray) chat) =
       [(Log, ''Received WebSocket message:''), (Log, ''Processing message:''),
        (Log, ''Message ignored, does not match current chat:'')]"
  by (simp add: onmessage_def current_chat_def say_def setMessages_def setError_def Let_def stray_def blank_def
      chat_def init_state_def alice_def bob_def uid_a_def uid_b_def uid_c_def opt_id_def
      uuidRegex_test_def is_hex_def)

theorem inbound_message_validated_witness:
  "\<not> (isValidUUID (sender_id (earlier\<lparr>sender_id := Val ''42''\<rparr>)) \<and>
       isValidUUID (receiver_id (earlier\<lparr>sender_id := Val ''42''\<rparr>)))
   \<and> messages (onmessage [] (MessageIn (earlier\<lparr>sender_id := Val ''42''\<rparr>)) chat) = []
   \<and> error (onmessage [] (MessageIn (earlier\<lparr>sender_id := Val ''42''\<rparr>)) chat) =
       Val ''Received invalid message data.''
   \<and> isValidUUID (sender_id earlier) \<and> isValidUUID (receiver_id earlier)
   \<and> receiver_id earlier = opt_id (currentUser chat)
   \<and> sender_id earlier = opt_id (selectedUser chat)
   \<and> messages (onmessage [] (MessageIn earlier) chat) = [new_entry (Some alice) (Some bob) earlier]
   \<and> messages (onmessage [] (MessageIn earlier) chat) \<noteq> messages chat
   \<and> isValidUUID (sender_id stray) \<and> isValidUUID (receiver_id stray)
   \<and> sender_id stray \<noteq> opt_id (currentUser chat)
   \<and> sender_id stray \<noteq> opt_id (selectedUser chat)
   \<and> messages (onmessage [] (MessageIn stray) chat) = []
   \<and> error (onmessage [] (MessageIn stray) chat) = Val []"
proof -
  have c: "currentUser chat = Some alice" "selectedUser chat = Some bob" "messages chat = []"
      "error chat = Val []"
    by (simp_all add: chat_def init_state_def)
  have bad: "\<not> (isValidUUID (sender_id (earlier\<lparr>sender_id := Val ''42''\<rparr>)) \<and>
       isValidUUID (receiver_id (earlier\<lparr>sender_id := Val ''42''\<rparr>)))"
    by (simp add: uuidRegex_test_def)
  have ok: "isValidUUID (sender_id earlier) \<and> isValidUUID (receiver_id earlier)"
    by (simp add: earlier_def blank_def uid_a_def uid_b_def uuidRegex_test_def is_hex_def)
  have pair: "receiver_id earlier = opt_id (currentUser chat)"
      "sender_id earlier = opt_id (selectedUser chat)"
    by (simp_all add: c earlier_def blank_def opt_id_def alice_def bob_def)
  have sok: "isValidUUID (sender_id stray) \<and> isValidUUID (receiver_id stray)"
    by (simp add: stray_def blank_def uid_a_def uid_c_def uuidRegex_test_def is_hex_def)
  have spair: "sender_id stray \<noteq> opt_id (currentUser chat)"
      "sender_id stray \<noteq> opt_id (selectedUser chat)"
    by (simp_all add: c stray_def blank_def opt_id_def alice_def bob_def uid_a_def uid_b_def
        uid_c_def)
  have upd: "message_updater (Some alice) (Some bob) earlier [] =
               [new_entry (Some alice) (Some bob) earlier]"
    by (simp add: message_updater_def)
  note a = inbound_message_validated [of "[]" "earlier\<lparr>sender_id := Val ''42''\<rparr>" chat]
  note b = inbound_message_validated [of "[]" earlier chat]
  note s = inbound_message_validated [of "[]" stray chat]
  have 1: "messages (onmessage [] (MessageIn (earlier\<lparr>sender_id := Val ''42''\<rparr>)) chat) = []
     \<and> error (onmessage [] (MessageIn (earlier\<lparr>sender_id := Val ''42''\<rparr>)) chat) =
       Val ''Received invalid message data.''"
    using a bad c by metis
  have 2: "messages (onmessage [] (MessageIn earlier) chat) =
             [new_entry (Some alice) (Some bob) earlier]"
    using b ok pair c upd by metis
  have 3: "messages (onmessage [] (MessageIn stray) chat) = []
     \<and> error (onmessage [] (MessageIn stray) chat) = Val []"
    using s sok spair c by metis
  show ?thesis using bad ok pair sok spair 1 2 3 c by simp
qed


section \<open>Local send\<close>

lemma trim_hi: "trim ''hi'' = ''hi''"
  by code_simp

lemma trim_hi_padded: "trim '' hi '' = ''hi''"
  by code_simp

text \<open>
  \<open>alice\<close> sends the text \<open>hi\<close> to \<open>bob\<close> while the socket is closed: the handler returns
  at its connection guard.  No pending entry is stored and no frame is sent; the failure
  is shown, a new socket is created and the composed text is kept.
\<close>

theorem closed_socket_send_not_stored:
  "currentUser (chat\<lparr>ws := Some CLOSED, message := ''hi''\<rparr>) = Some alice
   \<and> selectedUser (chat\<lparr>ws := Some CLOSED, message := ''hi''\<rparr>) = Some bob
   \<and> (\<exists>st'. handleSendMessage (UploadFailed Undefined) ''1700000000000''
              ''2023-11-14T22:13:20.000Z'' (chat\<lparr>ws := Some CLOSED, message := ''hi''\<rparr>) = Inr st'
         \<and> messages st' = [] \<and> sent st' = []
         \<and> error st' = Val ''Connection lost. Trying to reconnect...''
         \<and> sockets st' = 1 \<and> message st' = ''hi'')"
  by (simp add: handleSendMessage_def chat_def init_state_def trim_hi
      connectWebSocket_def setError_def say_def Let_def)

lemma connectWebSocket_after_lost:
  assumes "currentUser st \<noteq> None" and "ws st \<noteq> Some OPEN"
  shows "console (connectWebSocket (setError e (say Err line st))) =
           console st @ [(Err, line), (Log, ''Initiating WebSocket connection to:'')] @
           (if socket_throws st then [(Err, ''Error creating WebSocket connection:'')] else [])
       \<and> (if socket_throws st
           then error (connectWebSocket (setError e (say Err line st))) =
                  Val ''Failed to establish WebSocket connection.'' \<and>
                connectionStatus (connectWebSocket (setError e (say Err line st))) = ''error'' \<and>
                ws (connectWebSocket (setError e (say Err line st))) = ws st \<and>
                sockets (connectWebSocket (setError e (say Err line st))) = sockets st
           else error (connectWebSocket (setError e (say Err line st))) = e \<and>
                ws (connectWebSocket (setError e (say Err line st))) = Some CONNECTING \<and>
                sockets (connectWebSocket (setError e (say Err line st))) = Suc (sockets st))
       \<and> messages (connectWebSocket (setError e (say Err line st))) = messages st
       \<and> sent (connectWebSocket (setError e (say Err line st))) = sent st
       \<and> calls (connectWebSocket (setError e (say Err line st))) = calls st
       \<and> message (connectWebSocket (setError e (say Err line st))) = message st"
  using assms by (simp add: connectWebSocket_def setError_def say_def Let_def)

text \<open>
  Claim C5.  For a send of a non-blank text with no file selected, by a logged-in user
  to a selected user: when the socket is open, \<open>setMessages\<close> is called first, appending
  the pending entry with the provisional identity (\<open>temp_id\<close> and \<open>message_id\<close> both the
  time token), and \<open>ws.current.send\<close> is called after it with the frame; when the socket
  is not open, neither is called, the message list, the frames sent and the composed
  text stay unchanged, and a reconnection is attempted: a new socket is created and the
  banner reads \<open>Connection lost. Trying to reconnect...\<close>, or, when the constructor
  throws, no socket is created and the banner reads \<open>Failed to establish WebSocket
  connection.\<close>  A file send whose upload has completed (\<open>handleFileUpload\<close>) calls
  \<open>setMessages\<close> with its pending entry whether or not the socket is open, and then
  sends the frame on an open socket or else attempts the reconnection in the same way.
  With a file selected and the socket open, \<open>handleSendMessage\<close> is that file send.
\<close>

theorem local_send:
  "(currentUser st = Some cu \<and> selectedUser st = Some su \<and> trim (message st) \<noteq> [] \<and>
    files st = [] \<longrightarrow>
      (ws st = Some OPEN \<longrightarrow>
         (\<exists>st'. handleSendMessage up tempId now_iso st = Inr st' \<and>
            messages st' = messages st @
              [optimistic_entry cu (msgObj su (Val (trim (message st))) Null Null Null tempId)
                 tempId now_iso] \<and>
            temp_id (last (messages st')) = Val tempId \<and>
            message_id (last (messages st')) = Val tempId \<and>
            text' (last (messages st')) = Val (trim (message st)) \<and>
            sent st' = sent st @
              [MessageOut (msgObj su (Val (trim (message st))) Null Null Null tempId)] \<and>
            calls st' = calls st @ [SetMessages, WsSend])) \<and>
      (ws st \<noteq> Some OPEN \<longrightarrow>
         (\<exists>st'. handleSendMessage up tempId now_iso st = Inr st' \<and>
            messages st' = messages st \<and> sent st' = sent st \<and> calls st' = calls st \<and>
            message st' = message st \<and>
            console st' = console st @
              [(Err, ''WebSocket not connected''), (Log, ''Initiating WebSocket connection to:'')] @
              (if socket_throws st then [(Err, ''Error creating WebSocket connection:'')] else []) \<and>
            (if socket_throws st
             then error st' = Val ''Failed to establish WebSocket connection.'' \<and>
                  connectionStatus st' = ''error'' \<and> ws st' = ws st \<and> sockets st' = sockets st
             else error st' = Val ''Connection lost. Trying to reconnect...'' \<and>
                  ws st' = Some CONNECTING \<and> sockets st' = Suc (sockets st)))))
   \<and> (currentUser st = Some cu \<and> selectedUser st = Some su \<longrightarrow>
        (\<forall>f url mtype fname.
           \<exists>st'. handleFileUpload (Some f) (Uploaded url mtype fname) tempId now_iso st = Inr st' \<and>
              messages st' = messages st @
                [optimistic_entry cu (msgObj su (Val (message st)) url mtype fname tempId)
                   tempId now_iso] \<and>
              (if ws st = Some OPEN
               then sent st' = sent st @
                      [MessageOut (msgObj su (Val (message st)) url mtype fname tempId)] \<and>
                    calls st' = calls st @ [SetMessages, WsSend]
               else sent st' = sent st \<and> calls st' = calls st @ [SetMessages] \<and>
                    (if socket_throws st
                     then error st' = Val ''Failed to establish WebSocket connection.'' \<and>
                          ws st' = ws st \<and> sockets st' = sockets st
                     else error st' = Val ''Connection lost. Trying to reconnect...'' \<and>
                          ws st' = Some CONNECTING \<and> sockets st' = Suc (sockets st)))))
   \<and> (currentUser st = Some cu \<and> selectedUser st = Some su \<and> files st = f0 # fs \<and>
       ws st = Some OPEN \<longrightarrow>
        handleSendMessage up tempId now_iso st = handleFileUpload (Some f0) up tempId now_iso st)"
proof (intro conjI impI allI)
  assume a: "currentUser st = Some cu \<and> selectedUser st = Some su \<and>
             trim (message st) \<noteq> [] \<and> files st = []"
    and "ws st = Some OPEN"
  then show "\<exists>st'. handleSendMessage up tempId now_iso st = Inr st' \<and>
            messages st' = messages st @
              [optimistic_entry cu (msgObj su (Val (trim (message st))) Null Null Null tempId)
                 tempId now_iso] \<and>
            temp_id (last (messages st')) = Val tempId \<and>
            message_id (last (messages st')) = Val tempId \<and>
            text' (last (messages st')) = Val (trim (message st)) \<and>
            sent st' = sent st @
              [MessageOut (msgObj su (Val (trim (message st))) Null Null Null tempId)] \<and>
            calls st' = calls st @ [SetMessages, WsSend]"
    by (simp add: handleSendMessage_def send_def setMessages_def say_def Let_def
        optimistic_entry_def msgObj_def)
next
  assume a: "currentUser st = Some cu \<and> selectedUser st = Some su \<and>
             trim (message st) \<noteq> [] \<and> files st = []"
    and w: "ws st \<noteq> Some OPEN"
  have h: "handleSendMessage up tempId now_iso st =
           Inr (connectWebSocket
                  (setError (Val ''Connection lost. Trying to reconnect...'')
                     (say Err ''WebSocket not connected'' st)))"
    using a w by (simp add: handleSendMessage_def)
  have c: "currentUser st \<noteq> None" using a by simp
  show "\<exists>st'. handleSendMessage up tempId now_iso st = Inr st' \<and>
            messages st' = messages st \<and> sent st' = sent st \<and> calls st' = calls st \<and>
            message st' = message st \<and>
            console st' = console st @
              [(Err, ''WebSocket not connected''), (Log, ''Initiating WebSocket connection to:'')] @
              (if socket_throws st then [(Err, ''Error creating WebSocket connection:'')] else []) \<and>
            (if socket_throws st
             then error st' = Val ''Failed to establish WebSocket connection.'' \<and>
                  connectionStatus st' = ''error'' \<and> ws st' = ws st \<and> sockets st' = sockets st
             else error st' = Val ''Connection lost. Trying to reconnect...'' \<and>
                  ws st' = Some CONNECTING \<and> sockets st' = Suc (sockets st))"
    unfolding h
    using connectWebSocket_after_lost [OF c w, of "Val ''Connection lost. Trying to reconnect...''"
        "''WebSocket not connected''"]
    by (cases "socket_throws st") simp_all
next
  fix f url mtype fname
  assume a: "currentUser st = Some cu \<and> selectedUser st = Some su"
  show "\<exists>st'. handleFileUpload (Some f) (Uploaded url mtype fname) tempId now_iso st = Inr st' \<and>
              messages st' = messages st @
                [optimistic_entry cu (msgObj su (Val (message st)) url mtype fname tempId)
                   tempId now_iso] \<and>
              (if ws st = Some OPEN
               then sent st' = sent st @
                      [MessageOut (msgObj su (Val (message st)) url mtype fname tempId)] \<and>
                    calls st' = calls st @ [SetMessages, WsSend]
               else sent st' = sent st \<and> calls st' = calls st @ [SetMessages] \<and>
                    (if socket_throws st
                     then error st' = Val ''Failed to establish WebSocket connection.'' \<and>
                          ws st' = ws st \<and> sockets st' = sockets st
                     else error st' = Val ''Connection lost. Trying to reconnect...'' \<and>
                          ws st' = Some CONNECTING \<and> sockets st' = Suc (sockets st)))"
    using a
    by (simp add: handleFileUpload_def connectWebSocket_def setError_def send_def
        setMessages_def say_def Let_def)
next
  assume "currentUser st = Some cu \<and> selectedUser st = Some su \<and> files st = f0 # fs \<and>
          ws st = Some OPEN"
  then show "handleSendMessage up tempId now_iso st =
             handleFileUpload (Some f0) up tempId now_iso st"
    by (simp add: handleSendMessage_def)
qed

text \<open>
  A text sent on the open socket; a text sent with no socket while the constructor
  throws; a file whose upload completed while the socket was closed; and a send with a
  file selected on the open socket.
\<close>

theorem local_send_witness:
  "currentUser (chat\<lparr>message := '' hi ''\<rparr>) = Some alice
   \<and> selectedUser (chat\<lparr>message := '' hi ''\<rparr>) = Some bob
   \<and> trim (message (chat\<lparr>message := '' hi ''\<rparr>)) \<noteq> []
   \<and> files (chat\<lparr>message := '' hi ''\<rparr>) = []
   \<and> ws (chat\<lparr>message := '' hi ''\<rparr>) = Some OPEN
   \<and> (\<exists>st'. handleSendMessage (UploadFailed Undefined) ''1700000000000''
              ''2023-11-14T22:13:20.000Z'' (chat\<lparr>message := '' hi ''\<rparr>) = Inr st'
         \<and> messages st' = [pending_hi]
         \<and> sent st' = [MessageOut (msgObj bob (Val ''hi'') Null Null Null ''1700000000000'')]
         \<and> calls st' = [SetMessages, WsSend])
   \<and> ws (chat\<lparr>ws := None, socket_throws := True, message := '' hi ''\<rparr>) \<noteq> Some OPEN
   \<and> socket_throws (chat\<lparr>ws := None, socket_throws := True, message := '' hi ''\<rparr>)
   \<and> (\<exists>st'. handleSendMessage (UploadFailed Undefined) ''1700000000000''
              ''2023-11-14T22:13:20.000Z''
              (chat\<lparr>ws := None, socket_throws := True, message := '' hi ''\<rparr>) = Inr st'
         \<and> messages st' = [] \<and> sent st' = [] \<and> calls st' = []
         \<and> error st' = Val ''Failed to establish WebSocket connection.''
         \<and> ws st' = None \<and> sockets st' = 0)
   \<and> ws (chat\<lparr>ws := Some CLOSED, files := [''cat.png'']\<rparr>) \<noteq> Some OPEN
   \<and> \<not> socket_throws (chat\<lparr>ws := Some CLOSED, files := [''cat.png'']\<rparr>)
   \<and> (\<exists>st'. handleFileUpload (Some ''cat.png'')
              (Uploaded (Val ''/uploads/cat.png'') (Val ''image'') (Val ''cat.png''))
              ''1700000000000'' ''2023-11-14T22:13:20.000Z''
              (chat\<lparr>ws := Some CLOSED, files := [''cat.png'']\<rparr>) = Inr st'
         \<and> map temp_id (messages st') = [Val ''1700000000000'']
         \<and> map media_url (messages st') = [Val ''/uploads/cat.png'']
         \<and> sent st' = [] \<and> calls st' = [SetMessages]
         \<and> error st' = Val ''Connection lost. Trying to reconnect...''
         \<and> ws st' = Some CONNECTING \<and> sockets st' = 1)
   \<and> files (chat\<lparr>files := [''cat.png'']\<rparr>) = [''cat.png'']
   \<and> handleSendMessage (Uploaded (Val ''/uploads/cat.png'') (Val ''image'') (Val ''cat.png''))
         ''1700000000000'' ''2023-11-14T22:13:20.000Z'' (chat\<lparr>files := [''cat.png'']\<rparr>)
       = handleFileUpload (Some ''cat.png'')
           (Uploaded (Val ''/uploads/cat.png'') (Val ''image'') (Val ''cat.png''))
           ''1700000000000'' ''2023-11-14T22:13:20.000Z'' (chat\<lparr>files := [''cat.png'']\<rparr>)"
proof -
  let ?S = "chat\<lparr>message := '' hi ''\<rparr>"
  let ?N = "chat\<lparr>ws := None, socket_throws := True, message := '' hi ''\<rparr>"
  let ?F = "chat\<lparr>ws := Some CLOSED, files := [''cat.png'']\<rparr>"
  let ?G = "chat\<lparr>files := [''cat.png'']\<rparr>"
  let ?up = "Uploaded (Val ''/uploads/cat.png'') (Val ''image'') (Val ''cat.png'')"
  let ?t = "''1700000000000''" and ?iso = "''2023-11-14T22:13:20.000Z''"
  have s: "currentUser ?S = Some alice" "selectedUser ?S = Some bob" "files ?S = []"
      "ws ?S = Some OPEN" "messages ?S = []" "sent ?S = []" "calls ?S = []"
    by (simp_all add: chat_def init_state_def)
  have n: "currentUser ?N = Some alice" "selectedUser ?N = Some bob" "files ?N = []"
      "ws ?N \<noteq> Some OPEN" "messages ?N = []" "sent ?N = []" "calls ?N = []"
      "sockets ?N = 0" "socket_throws ?N" "ws ?N = None"
    by (simp_all add: chat_def init_state_def)
  have f: "currentUser ?F = Some alice" "selectedUser ?F = Some bob"
      "ws ?F \<noteq> Some OPEN" "messages ?F = []" "sent ?F = []" "calls ?F = []"
      "sockets ?F = 0" "\<not> socket_throws ?F" "message ?F = []"
    by (simp_all add: chat_def init_state_def)
  have g: "currentUser ?G = Some alice" "selectedUser ?G = Some bob"
      "files ?G = [''cat.png'']" "ws ?G = Some OPEN"
    by (simp_all add: chat_def init_state_def)
  have t: "trim (message ?S) = ''hi''" "trim (message ?N) = ''hi''"
    by (simp_all add: trim_hi_padded)
  have t0: "trim (message ?S) \<noteq> []" "trim (message ?N) \<noteq> []" using t by simp_all
  note a = local_send [where st = ?S and cu = alice and su = bob
      and up = "UploadFailed Undefined" and tempId = ?t and now_iso = ?iso, THEN conjunct1]
  note b = local_send [where st = ?N and cu = alice and su = bob
      and up = "UploadFailed Undefined" and tempId = ?t and now_iso = ?iso, THEN conjunct1]
  note c = local_send [where st = ?F and cu = alice and su = bob
      and tempId = ?t and now_iso = ?iso, THEN conjunct2, THEN conjunct1]
  note d = local_send [where st = ?G and cu = alice and su = bob and ?f0.0 = "''cat.png''"
      and fs = "[]" and up = ?up and tempId = ?t and now_iso = ?iso,
      THEN conjunct2, THEN conjunct2]
  from a s t0 have "\<exists>st'. handleSendMessage (UploadFailed Undefined) ?t ?iso ?S = Inr st' \<and>
            messages st' = messages ?S @
              [optimistic_entry alice (msgObj bob (Val (trim (message ?S))) Null Null Null ?t)
                 ?t ?iso] \<and>
            sent st' = sent ?S @
              [MessageOut (msgObj bob (Val (trim (message ?S))) Null Null Null ?t)] \<and>
            calls st' = calls ?S @ [SetMessages, WsSend]"
    by blast
  then have 1: "\<exists>st'. handleSendMessage (UploadFailed Undefined) ?t ?iso ?S = Inr st'
         \<and> messages st' = [pending_hi]
         \<and> sent st' = [MessageOut (msgObj bob (Val ''hi'') Null Null Null ?t)]
         \<and> calls st' = [SetMessages, WsSend]"
    unfolding t s pending_hi_def by simp
  from b n(1-4) t0 have "\<exists>st'. handleSendMessage (UploadFailed Undefined) ?t ?iso ?N = Inr st' \<and>
            messages st' = messages ?N \<and> sent st' = sent ?N \<and> calls st' = calls ?N \<and>
            (if socket_throws ?N
             then error st' = Val ''Failed to establish WebSocket connection.'' \<and>
                  connectionStatus st' = ''error'' \<and> ws st' = ws ?N \<and> sockets st' = sockets ?N
             else error st' = Val ''Connection lost. Trying to reconnect...'' \<and>
                  ws st' = Some CONNECTING \<and> sockets st' = Suc (sockets ?N))"
    by blast
  then have 2: "\<exists>st'. handleSendMessage (UploadFailed Undefined) ?t ?iso ?N = Inr st'
         \<and> messages st' = [] \<and> sent st' = [] \<and> calls st' = []
         \<and> error st' = Val ''Failed to establish WebSocket connection.''
         \<and> ws st' = None \<and> sockets st' = 0"
    unfolding n(5-8,10) using n(9) by auto
  from c f(1,2) have "\<exists>st'. handleFileUpload (Some ''cat.png'') ?up ?t ?iso ?F = Inr st' \<and>
              messages st' = messages ?F @
                [optimistic_entry alice
                   (msgObj bob (Val (message ?F)) (Val ''/uploads/cat.png'') (Val ''image'')
                      (Val ''cat.png'') ?t) ?t ?iso] \<and>
              (if ws ?F = Some OPEN
               then sent st' = sent ?F @
                      [MessageOut (msgObj bob (Val (message ?F)) (Val ''/uploads/cat.png'')
                         (Val ''image'') (Val ''cat.png'') ?t)] \<and>
                    calls st' = calls ?F @ [SetMessages, WsSend]
               else sent st' = sent ?F \<and> calls st' = calls ?F @ [SetMessages] \<and>
                    (if socket_throws ?F
                     then error st' = Val ''Failed to establish WebSocket connection.'' \<and>
                          ws st' = ws ?F \<and> sockets st' = sockets ?F
                     else error st' = Val ''Connection lost. Trying to reconnect...'' \<and>
                          ws st' = Some CONNECTING \<and> sockets st' = Suc (sockets ?F)))"
    by blast
  then obtain st' where st': "handleFileUpload (Some ''cat.png'') ?up ?t ?iso ?F = Inr st'"
      "messages st' = messages ?F @
                [optimistic_entry alice
                   (msgObj bob (Val (message ?F)) (Val ''/uploads/cat.png'') (Val ''image'')
                      (Val ''cat.png'') ?t) ?t ?iso]"
      "sent st' = sent ?F" "calls st' = calls ?F @ [SetMessages]"
      "error st' = Val ''Connection lost. Trying to reconnect...''"
      "ws st' = Some CONNECTING" "sockets st' = Suc (sockets ?F)"
    using f(3,8) by (auto split: if_splits)
  have 3: "\<exists>st'. handleFileUpload (Some ''cat.png'') ?up ?t ?iso ?F = Inr st'
         \<and> map temp_id (messages st') = [Val ''1700000000000'']
         \<and> map media_url (messages st') = [Val ''/uploads/cat.png'']
         \<and> sent st' = [] \<and> calls st' = [SetMessages]
         \<and> error st' = Val ''Connection lost. Trying to reconnect...''
         \<and> ws st' = Some CONNECTING \<and> sockets st' = 1"
    using st' f(4-7) by (simp add: optimistic_entry_def msgObj_def)
  from d g have 4: "handleSendMessage ?up ?t ?iso ?G = handleFileUpload (Some ''cat.png'') ?up ?t ?iso ?G"
    by blast
  from s(1,2) t0(1) s(3,4) 1 n(4,9) 2 f(3,8) 3 g(3) 4 show ?thesis by (intro conjI)
qed

section \<open>Merging inbound message frames\<close>

lemma list_ex_same_message: "list_ex (same_message d) prev \<longleftrightarrow> (\<exists>m\<in>set prev. same_message d m)"
  by (simp add: list_ex_iff)

lemma message_updater_split:
  "message_updater cu su d prev =
     map (\<lambda>m. if same_message d m then merge_entry cu d m else m) prev @
     (if list_ex (same_message d) prev then [] else [new_entry cu su d])"
proof (cases "list_ex (same_message d) prev")
  case True
  then show ?thesis by (simp add: message_updater_def)
next
  case False
  then have "\<forall>m\<in>set prev. \<not> same_message d m" by (simp add: list_ex_iff)
  then have "map (\<lambda>m. if same_message d m then merge_entry cu d m else m) prev = prev"
    by (simp add: map_idI)
  with False show ?thesis by (simp add: message_updater_def)
qed

lemma merge_entry_message_id:
  "truthy (message_id d) \<Longrightarrow> message_id (merge_entry cu d m) = message_id d"
  by (simp add: merge_entry_def or_js_def)

lemma merge_entry_temp_id:
  "truthy (temp_id d) \<Longrightarrow> temp_id (merge_entry cu d m) = Undefined"
  by (simp add: merge_entry_def)


lemma other_message_id:
  "truthy (message_id d) \<Longrightarrow> \<not> same_message d m \<Longrightarrow> message_id m \<noteq> message_id d"
  by (auto simp: same_message_def)


text \<open>
  Claim C2.  Let an inbound message frame carry a canonical identity (\<open>message_id\<close>)
  and a provisional identity (\<open>temp_id\<close>), let the entry at index \<open>i\<close> carry that
  \<open>temp_id\<close>, and let no other entry of the list match the frame.  Then the merge
  keeps the length of the list, replaces the entry at \<open>i\<close> in place by its merge with
  the frame, which carries the canonical identity and no \<open>temp_id\<close>, leaves every other
  entry as it was, and the entry at \<open>i\<close> is the only one with that canonical identity.
\<close>

theorem identity_promotion:
  assumes "truthy (message_id d)" and "truthy (temp_id d)"
    and "i < length prev" and "temp_id (prev ! i) = temp_id d"
    and "\<forall>j<length prev. j \<noteq> i \<longrightarrow> \<not> same_message d (prev ! j)"
  shows "length (message_updater cu su d prev) = length prev
       \<and> message_updater cu su d prev ! i = merge_entry cu d (prev ! i)
       \<and> message_id (message_updater cu su d prev ! i) = message_id d
       \<and> temp_id (message_updater cu su d prev ! i) = Undefined
       \<and> (\<forall>j<length prev. j \<noteq> i \<longrightarrow> message_updater cu su d prev ! j = prev ! j)
       \<and> (\<forall>j<length prev. message_id (message_updater cu su d prev ! j) = message_id d \<longrightarrow> j = i)"
proof -
  have same: "same_message d (prev ! i)"
    using assms(2,4) by (simp add: same_message_def)
  then have ex: "list_ex (same_message d) prev"
    using assms(3) by (auto simp: list_ex_iff)
  have res: "message_updater cu su d prev =
               map (\<lambda>m. if same_message d m then merge_entry cu d m else m) prev"
    using ex by (simp add: message_updater_def)
  have len: "length (message_updater cu su d prev) = length prev" by (simp add: res)
  have at_i: "message_updater cu su d prev ! i = merge_entry cu d (prev ! i)"
    using same assms(3) by (simp add: res)
  have others: "\<forall>j<length prev. j \<noteq> i \<longrightarrow> message_updater cu su d prev ! j = prev ! j"
    using assms(5) by (simp add: res)
  have uniq: "\<forall>j<length prev. message_id (message_updater cu su d prev ! j) = message_id d \<longrightarrow> j = i"
  proof (intro allI impI)
    fix j assume j: "j < length prev"
      and eq: "message_id (message_updater cu su d prev ! j) = message_id d"
    show "j = i"
    proof (rule ccontr)
      assume ne: "j \<noteq> i"
      then have ns: "\<not> same_message d (prev ! j)" using assms(5) j by blast
      have "message_updater cu su d prev ! j = prev ! j" using others j ne by blast
      then have "message_id (prev ! j) = message_id d" using eq by simp
      then show False using other_message_id [OF assms(1) ns] by simp
    qed
  qed
  have mid: "message_id (message_updater cu su d prev ! i) = message_id d"
    unfolding at_i by (rule merge_entry_message_id [OF assms(1)])
  have tid: "temp_id (message_updater cu su d prev ! i) = Undefined"
    unfolding at_i by (rule merge_entry_temp_id [OF assms(2)])
  from len at_i mid tid others uniq show ?thesis by (intro conjI)
qed

text \<open>
  The list holds the message \<open>m9\<close>, stored from a frame without \<open>temp_id\<close>, and the
  pending entry of the same message.  The echo carrying both identities matches both
  entries, and the merge leaves two entries with the canonical identity \<open>m9\<close>.
\<close>

theorem promotion_duplicates_stored_identity:
  "truthy (message_id echo_hi) \<and> truthy (temp_id echo_hi)
   \<and> truthy (temp_id pending_hi) \<and> temp_id pending_hi = temp_id echo_hi
   \<and> map message_id [new_entry (Some alice) (Some bob) echo_plain, pending_hi]
       = [Val ''m9'', Val ''1700000000000'']
   \<and> map message_id
       (message_updater (Some alice) (Some bob) echo_hi
          [new_entry (Some alice) (Some bob) echo_plain, pending_hi])
       = [Val ''m9'', Val ''m9'']"
  by (simp add: message_updater_def same_message_def merge_entry_def new_entry_def or_js_def
      echo_hi_def echo_plain_def pending_hi_def optimistic_entry_def msgObj_def blank_def)

theorem identity_promotion_witness:
  "truthy (message_id echo_hi) \<and> truthy (temp_id echo_hi)
   \<and> 1 < length [hello, pending_hi]
   \<and> temp_id ([hello, pending_hi] ! 1) = temp_id echo_hi
   \<and> \<not> same_message echo_hi ([hello, pending_hi] ! 0)
   \<and> length (message_updater (Some alice) (Some bob) echo_hi [hello, pending_hi]) = 2
   \<and> message_id (message_updater (Some alice) (Some bob) echo_hi [hello, pending_hi] ! 1) = Val ''m9''
   \<and> temp_id (message_updater (Some alice) (Some bob) echo_hi [hello, pending_hi] ! 1) = Undefined
   \<and> message_updater (Some alice) (Some bob) echo_hi [hello, pending_hi] ! 0 = hello"
proof -
  have d: "message_id echo_hi = Val ''m9''" "temp_id echo_hi = Val ''1700000000000''"
    by (simp_all add: echo_hi_def echo_plain_def blank_def)
  have p: "temp_id pending_hi = Val ''1700000000000''"
    by (simp add: pending_hi_def optimistic_entry_def msgObj_def)
  have h: "message_id hello = Val ''m1''" "temp_id hello = Undefined"
    by (simp_all add: hello_def blank_def)
  have a1: "truthy (message_id echo_hi)" and a2: "truthy (temp_id echo_hi)" using d by simp_all
  have a3: "1 < length [hello, pending_hi]" by simp
  have a4: "temp_id ([hello, pending_hi] ! 1) = temp_id echo_hi" using d p by simp
  have a5: "\<forall>j<length [hello, pending_hi]. j \<noteq> 1 \<longrightarrow>
              \<not> same_message echo_hi ([hello, pending_hi] ! j)"
    using d h by (simp add: same_message_def less_Suc_eq)
  note t = identity_promotion [OF a1 a2 a3 a4 a5, of "Some alice" "Some bob"]
  have z: "message_updater (Some alice) (Some bob) echo_hi [hello, pending_hi] ! 0 = hello"
  proof -
    from t have "\<forall>j<length [hello, pending_hi]. j \<noteq> 1 \<longrightarrow>
        message_updater (Some alice) (Some bob) echo_hi [hello, pending_hi] ! j = [hello, pending_hi] ! j"
      by blast
    then show ?thesis by simp
  qed
  from t have "length (message_updater (Some alice) (Some bob) echo_hi [hello, pending_hi]) = length [hello, pending_hi]"
    by blast
  then have l: "length (message_updater (Some alice) (Some bob) echo_hi [hello, pending_hi]) = 2"
    by simp
  from t have "message_id (message_updater (Some alice) (Some bob) echo_hi [hello, pending_hi] ! 1) = message_id echo_hi"
    by blast
  then have m: "message_id (message_updater (Some alice) (Some bob) echo_hi [hello, pending_hi] ! 1) = Val ''m9''"
    using d(1) by simp
  from t have u: "temp_id (message_updater (Some alice) (Some bob) echo_hi [hello, pending_hi] ! 1) = Undefined"
    by blast
  have a6: "\<not> same_message echo_hi ([hello, pending_hi] ! 0)"
    using d h by (simp add: same_message_def)
  from a1 a2 a3 a4 a6 l m u z show ?thesis by (intro conjI)
qed


section \<open>Redelivery of a message frame\<close>
















section \<open>Order of the message list\<close>

lemma fold_message_updater:
  "length prev \<le> length (fold (message_updater cu su) evs prev) \<and>
   take (length prev) (fold (message_updater cu su) evs prev) =
     map (fold (\<lambda>d m. if same_message d m then merge_entry cu d m else m) evs) prev"
proof (induction evs arbitrary: prev)
  case Nil
  show ?case by simp
next
  case (Cons d evs)
  define u where "u = (\<lambda>d m. if same_message d m then merge_entry cu d m else m)"
  define extra where
    "extra = (if list_ex (same_message d) prev then [] else [new_entry cu su d])"
  define prev' where "prev' = message_updater cu su d prev"
  have split: "prev' = map (u d) prev @ extra"
    unfolding prev'_def u_def extra_def by (rule message_updater_split)
  then have len: "length prev \<le> length prev'" by simp
  have ih1: "length prev' \<le> length (fold (message_updater cu su) evs prev')"
    and ih2: "take (length prev') (fold (message_updater cu su) evs prev') =
                map (fold u evs) prev'"
    using Cons.IH [of prev'] unfolding u_def by simp_all
  have f: "fold (message_updater cu su) (d # evs) prev = fold (message_updater cu su) evs prev'"
    by (simp add: prev'_def)
  have "take (length prev) (fold (message_updater cu su) evs prev') =
          take (length prev) (take (length prev') (fold (message_updater cu su) evs prev'))"
    using len by (simp add: min_absorb1)
  also have "\<dots> = take (length prev) (map (fold u evs) prev')"
    by (simp only: ih2)
  also have "\<dots> = take (length prev) (map (fold u evs) (map (u d) prev @ extra))"
    by (simp only: split)
  also have "\<dots> = map (fold u evs) (map (u d) prev)" by simp
  also have "\<dots> = map (fold u (d # evs)) prev" by simp
  finally have "take (length prev) (fold (message_updater cu su) (d # evs) prev) =
                  map (fold u (d # evs)) prev"
    by (simp only: f)
  moreover have "length prev \<le> length (fold (message_updater cu su) (d # evs) prev)"
    using len ih1 by (simp add: prev'_def)
  ultimately show ?case unfolding u_def by blast
qed

lemma fetchMessages_replaces:
  assumes "currentUser st = Some cu" and "selectedUser st = Some su"
    and "isValidUUID (id' cu)" and "isValidUUID (id' su)"
  shows "messages (fetchMessages (FetchOk res_data) st) =
           map (\<lambda>m. m\<lparr>key := Val (generateMessageKey m)\<rparr>) res_data"
  using assms by (simp add: fetchMessages_def say_def setMessages_def Let_def)

text \<open>
  Claim C6.  One merge of an inbound message frame replaces each entry in place (a
  matching entry by its merge with the frame, any other by itself) and, when no entry
  matches, appends the new entry at the end of the list, whatever its \<open>created_at\<close>.
  Hence after any sequence of merges the list is at least as long as before, and the
  entry at each index that existed before is the entry that was there, updated in place
  by the frames that matched it: entries already present never change their relative
  order.  A successful history fetch replaces the list by the records returned, in the
  order returned.
\<close>

theorem merge_keeps_positions:
  "message_updater cu su d prev =
     map (\<lambda>m. if same_message d m then merge_entry cu d m else m) prev @
     (if list_ex (same_message d) prev then [] else [new_entry cu su d])
   \<and> length prev \<le> length (fold (message_updater cu su) evs prev)
   \<and> take (length prev) (fold (message_updater cu su) evs prev) =
       map (fold (\<lambda>d m. if same_message d m then merge_entry cu d m else m) evs) prev
   \<and> (\<forall>c s. currentUser st = Some c \<and> selectedUser st = Some s \<and>
             isValidUUID (id' c) \<and> isValidUUID (id' s) \<longrightarrow>
        messages (fetchMessages (FetchOk res_data) st) =
          map (\<lambda>m. m\<lparr>key := Val (generateMessageKey m)\<rparr>) res_data)"
  using message_updater_split [of cu su d prev] fold_message_updater [of prev cu su evs]
    fetchMessages_replaces [of st _ _ res_data]
  by blast

text \<open>
  The list holds \<open>hello\<close>, created on 2 January; the frame \<open>earlier\<close> was created on
  1 January.  The merge appends the new entry after \<open>hello\<close>, and the list, ordered by
  creation timestamp before, is no longer so.
\<close>

theorem new_message_not_placed_by_timestamp:
  "ordered_by_created_at [hello]
   \<and> message_updater (Some alice) (Some bob) earlier [hello] =
       [hello, new_entry (Some alice) (Some bob) earlier]
   \<and> created_at hello = Val ''2024-01-02T00:00:00.000Z''
   \<and> created_at (new_entry (Some alice) (Some bob) earlier) = Val ''2024-01-01T00:00:00.000Z''
   \<and> \<not> ordered_by_created_at (message_updater (Some alice) (Some bob) earlier [hello])"
proof -
  have h: "message_id hello = Val ''m1''" "temp_id hello = Undefined"
      "created_at hello = Val ''2024-01-02T00:00:00.000Z''"
    by (simp_all add: hello_def blank_def)
  have e: "message_id earlier = Val ''m0''" "temp_id earlier = Undefined"
      "created_at earlier = Val ''2024-01-01T00:00:00.000Z''"
    by (simp_all add: earlier_def blank_def)
  have ns: "\<not> same_message earlier hello" using h e by (simp add: same_message_def)
  then have r: "message_updater (Some alice) (Some bob) earlier [hello] =
       [hello, new_entry (Some alice) (Some bob) earlier]"
    by (simp add: message_updater_def)
  have c: "created_at (new_entry (Some alice) (Some bob) earlier) = Val ''2024-01-01T00:00:00.000Z''"
    using e by (simp add: new_entry_def)
  have lt: "\<not> ''2024-01-02T00:00:00.000Z'' \<le> ''2024-01-01T00:00:00.000Z''"
    by (simp add: less_eq_char_def)
  have o1: "ordered_by_created_at [hello]" by (simp add: ordered_by_created_at_def)
  have o2: "\<not> ordered_by_created_at (message_updater (Some alice) (Some bob) earlier [hello])"
    unfolding r using lt h(3) c by (simp add: ordered_by_created_at_def)
  from o1 r h(3) c o2 show ?thesis by (intro conjI)
qed

theorem merge_keeps_positions_witness:
  "currentUser chat = Some alice \<and> selectedUser chat = Some bob
   \<and> isValidUUID (id' alice) \<and> isValidUUID (id' bob)
   \<and> map message_id (messages (fetchMessages (FetchOk [howdy, hello]) chat))
       = [Val ''m2'', Val ''m1'']
   \<and> message_updater (Some alice) (Some bob) earlier [hello] =
       [hello, new_entry (Some alice) (Some bob) earlier]
   \<and> take 2 (fold (message_updater (Some alice) (Some bob)) [echo_hi, earlier]
               [hello, pending_hi])
       = [hello, merge_entry (Some alice) echo_hi pending_hi]"
proof -
  have c: "currentUser chat = Some alice" "selectedUser chat = Some bob"
    by (simp_all add: chat_def init_state_def)
  have v: "isValidUUID (id' alice)" "isValidUUID (id' bob)"
    by (simp_all add: alice_def bob_def uid_a_def uid_b_def uuidRegex_test_def is_hex_def)
  have h: "message_id hello = Val ''m1''" "temp_id hello = Undefined"
      "message_id howdy = Val ''m2''"
    by (simp_all add: hello_def howdy_def blank_def)
  have e: "message_id earlier = Val ''m0''" "temp_id earlier = Undefined"
    by (simp_all add: earlier_def blank_def)
  have d: "message_id echo_hi = Val ''m9''" "temp_id echo_hi = Val ''1700000000000''"
    by (simp_all add: echo_hi_def echo_plain_def blank_def)
  have p: "temp_id pending_hi = Val ''1700000000000''"
      "message_id pending_hi = Val ''1700000000000''"
    by (simp_all add: pending_hi_def optimistic_entry_def msgObj_def)
  have s1: "\<not> same_message earlier hello" "\<not> same_message echo_hi hello"
    using h e d by (simp_all add: same_message_def)
  have s2: "same_message echo_hi pending_hi" using d p by (simp add: same_message_def)
  have s3: "\<not> same_message earlier (merge_entry (Some alice) echo_hi pending_hi)"
    using e d by (simp add: same_message_def merge_entry_def or_js_def)
  note a = merge_keeps_positions [of "Some alice" "Some bob" earlier "[hello]" "[]" chat
      "[howdy, hello]"]
  note b = merge_keeps_positions [of "Some alice" "Some bob" earlier "[hello, pending_hi]"
      "[echo_hi, earlier]" chat "[]"]
  from a c v have "messages (fetchMessages (FetchOk [howdy, hello]) chat) =
          map (\<lambda>m. m\<lparr>key := Val (generateMessageKey m)\<rparr>) [howdy, hello]"
    by blast
  then have f: "map message_id (messages (fetchMessages (FetchOk [howdy, hello]) chat))
       = [Val ''m2'', Val ''m1'']"
    using h by simp
  from a have "message_updater (Some alice) (Some bob) earlier [hello] =
     map (\<lambda>m. if same_message earlier m then merge_entry (Some alice) earlier m else m) [hello] @
     (if list_ex (same_message earlier) [hello] then []
      else [new_entry (Some alice) (Some bob) earlier])"
    by blast
  then have m: "message_updater (Some alice) (Some bob) earlier [hello] =
       [hello, new_entry (Some alice) (Some bob) earlier]"
    using s1 by simp
  from b have "take (length [hello, pending_hi])
        (fold (message_updater (Some alice) (Some bob)) [echo_hi, earlier] [hello, pending_hi]) =
       map (fold (\<lambda>d m. if same_message d m then merge_entry (Some alice) d m else m)
              [echo_hi, earlier]) [hello, pending_hi]"
    by blast
  then have t: "take 2 (fold (message_updater (Some alice) (Some bob)) [echo_hi, earlier]
               [hello, pending_hi])
       = [hello, merge_entry (Some alice) echo_hi pending_hi]"
    using s1 s2 s3 by (simp add: numeral_2_eq_2)
  from c v f m t show ?thesis by (intro conjI)
qed

end
